theory Spec2Isabelle
  imports Complex_Main "HOL-Library.Char_ord" "HOL-Library.List_Lexorder"
begin

section \<open>Python values and exceptions\<close>

text \<open>
  The exceptions the controller and the monitor raise or catch.  \<open>kopf.TemporaryError\<close>
  carries a message and an optional delay (\<open>None\<close> when the source passes no
  \<open>delay=\<close>), \<open>kopf.PermanentError\<close> a message, \<open>mysqlsh.Error\<close> its numeric
  \<open>code\<close> and a message.  Every other Python exception is \<open>OtherException\<close>.
\<close>

datatype exc =
    TemporaryError string "nat option"
  | PermanentError string
  | MysqlshError int string
  | AssertionError string
  | IndexError
  | OtherException string

text \<open>The values a handler can return, with Python's truth test.\<close>

datatype pyval = PyNone | PyBool bool | PyInt int | PyStr string

fun truthy :: "pyval \<Rightarrow> bool" where
  "truthy PyNone = False"
| "truthy (PyBool b) = b"
| "truthy (PyInt i) = (i \<noteq> 0)"
| "truthy (PyStr s) = (s \<noteq> [])"

section \<open>Data model\<close>

record clone_spec =
  clone_uri :: string

text \<open>\<open>parsed_spec.initDB\<close>: only its \<open>clone\<close> attribute is read by the controller.\<close>

record initdb_spec =
  clone :: "clone_spec option"

record InnoDBCluster =
  cluster_namespace :: string
  cluster_name :: string
  cluster_deleting :: bool
  initDB :: "initdb_spec option"
  routers :: "int option"

section \<open>Group monitor: registration\<close>

text \<open>
  A session of the X protocol: an identity (two session objects are the same object
  exactly when they have the same identity) and the URI it reports.
\<close>

record xsession =
  sess_id :: nat
  sess_uri :: string

record 'h MonitoredCluster =
  mc_cluster :: InnoDBCluster
  session :: "xsession option"
  target :: "string option"
  target_not_primary :: "bool option"
  last_connect_attempt :: real
  last_primary_id :: "string option"
  last_view_id :: "string option"
  handler :: 'h

text \<open>\<open>MonitoredCluster.__init__\<close>.\<close>

definition MonitoredCluster_init :: "InnoDBCluster \<Rightarrow> 'h \<Rightarrow> 'h MonitoredCluster" where
  "MonitoredCluster_init cluster h =
     \<lparr>mc_cluster = cluster, session = None, target = None, target_not_primary = None,
      last_connect_attempt = 0, last_primary_id = None, last_view_id = None,
      handler = h\<rparr>"

record 'h GroupMonitor =
  clusters :: "'h MonitoredCluster list"
  stopped :: bool

text \<open>
  The \<open>for c in self.clusters\<close> loop of \<open>monitor_cluster\<close>: \<open>True\<close> when the loop
  leaves the method through its \<open>return\<close>.
\<close>

fun monitor_cluster_found :: "'h MonitoredCluster list \<Rightarrow> InnoDBCluster \<Rightarrow> bool" where
  "monitor_cluster_found [] cluster = False"
| "monitor_cluster_found (c # cs) cluster =
     (if cluster_name (mc_cluster c) = cluster_name cluster
         \<and> cluster_namespace (mc_cluster c) = cluster_namespace cluster
      then True
      else monitor_cluster_found cs cluster)"

definition monitor_cluster ::
  "'h GroupMonitor \<Rightarrow> InnoDBCluster \<Rightarrow> 'h \<Rightarrow> 'h GroupMonitor" where
  "monitor_cluster self cluster h =
     (if monitor_cluster_found (clusters self) cluster then self
      else self\<lparr>clusters := clusters self @ [MonitoredCluster_init cluster h]\<rparr>)"

section \<open>Pods, diagnostics, the observed world\<close>

text \<open>
  \<open>pod.get_membership_info()\<close>: the membership annotation of the pod object, as it was
  when the pod object was read.
\<close>

record membership_info =
  mi_memberId :: "string option"
  mi_role :: "string option"
  mi_lastTransitionTime :: "string option"

record MySQLPod =
  pod_name :: string
  pod_index :: int
  pod_endpoint :: string
  pod_xendpoint :: string
  pod_deleting :: bool
  pod_membership_info :: "membership_info option"

text \<open>
  Modelled from the spec: the status constants \<open>DIAG_CLUSTER_*\<close> of the module
  \<open>diagnose\<close>, which is not among the sources; one constructor for each state of the
  Cluster Diagnostic (section 3).
\<close>

datatype diag_status =
    DIAG_CLUSTER_INITIALIZING
  | DIAG_CLUSTER_ONLINE
  | DIAG_CLUSTER_ONLINE_PARTIAL
  | DIAG_CLUSTER_ONLINE_UNCERTAIN
  | DIAG_CLUSTER_OFFLINE
  | DIAG_CLUSTER_OFFLINE_UNCERTAIN
  | DIAG_CLUSTER_NO_QUORUM
  | DIAG_CLUSTER_NO_QUORUM_UNCERTAIN
  | DIAG_CLUSTER_SPLIT_BRAIN
  | DIAG_CLUSTER_SPLIT_BRAIN_UNCERTAIN
  | DIAG_CLUSTER_UNKNOWN
  | DIAG_CLUSTER_INVALID
  | DIAG_CLUSTER_FINALIZING

text \<open>
  Modelled from the spec: the text an f-string prints for a status, which the absent
  module \<open>diagnose\<close> fixes; the name of the state in section 3.
\<close>

fun status_name :: "diag_status \<Rightarrow> string" where
  "status_name DIAG_CLUSTER_INITIALIZING = ''INITIALIZING''"
| "status_name DIAG_CLUSTER_ONLINE = ''ONLINE''"
| "status_name DIAG_CLUSTER_ONLINE_PARTIAL = ''ONLINE_PARTIAL''"
| "status_name DIAG_CLUSTER_ONLINE_UNCERTAIN = ''ONLINE_UNCERTAIN''"
| "status_name DIAG_CLUSTER_OFFLINE = ''OFFLINE''"
| "status_name DIAG_CLUSTER_OFFLINE_UNCERTAIN = ''OFFLINE_UNCERTAIN''"
| "status_name DIAG_CLUSTER_NO_QUORUM = ''NO_QUORUM''"
| "status_name DIAG_CLUSTER_NO_QUORUM_UNCERTAIN = ''NO_QUORUM_UNCERTAIN''"
| "status_name DIAG_CLUSTER_SPLIT_BRAIN = ''SPLIT_BRAIN''"
| "status_name DIAG_CLUSTER_SPLIT_BRAIN_UNCERTAIN = ''SPLIT_BRAIN_UNCERTAIN''"
| "status_name DIAG_CLUSTER_UNKNOWN = ''UNKNOWN''"
| "status_name DIAG_CLUSTER_INVALID = ''INVALID''"
| "status_name DIAG_CLUSTER_FINALIZING = ''FINALIZING''"

text \<open>The statuses the spec tags UNCERTAIN: those whose name ends in \<open>_UNCERTAIN\<close>.\<close>

fun is_uncertain :: "diag_status \<Rightarrow> bool" where
  "is_uncertain DIAG_CLUSTER_ONLINE_UNCERTAIN = True"
| "is_uncertain DIAG_CLUSTER_OFFLINE_UNCERTAIN = True"
| "is_uncertain DIAG_CLUSTER_NO_QUORUM_UNCERTAIN = True"
| "is_uncertain DIAG_CLUSTER_SPLIT_BRAIN_UNCERTAIN = True"
| "is_uncertain _ = False"

record ClusterDiagnostic =
  diag_status :: diag_status
  online_members :: "string list"
  primary :: "MySQLPod option"
  quorum_candidates :: "MySQLPod list"

text \<open>
  Modelled from the spec: the constants \<open>DIAG_CANDIDATE_*\<close> of the absent module
  \<open>diagnose\<close>; one constructor for each state of the Candidate Diagnostic (section 3).
\<close>

datatype candidate_status =
    DIAG_CANDIDATE_JOINABLE
  | DIAG_CANDIDATE_REJOINABLE
  | DIAG_CANDIDATE_MEMBER
  | DIAG_CANDIDATE_UNREACHABLE
  | DIAG_CANDIDATE_BROKEN

text \<open>The dictionary \<open>publish_status\<close> stores, read back field by field.\<close>

record cluster_status =
  cs_status :: "diag_status option"
  cs_onlineInstances :: "nat option"
  cs_lastProbeTime :: "string option"

record cluster_info =
  initialDataSource :: string
  incrementalRecoveryAllowed :: bool

record member_status =
  ms_member_id :: string
  ms_role :: string
  ms_status :: string
  ms_view_id :: string
  ms_version :: string
  ms_joined :: "bool option"

text \<open>An option value of the admin client: a Python \<open>bool\<close> or \<open>str\<close>.\<close>

datatype optval = OptBool bool | OptStr string

type_synonym options = "(string \<times> optval) list"

text \<open>
  \<open>dict.update\<close> on a dictionary kept in insertion order: a key already present keeps
  its place and takes the new value, a new key goes to the end.
\<close>

fun dict_set :: "options \<Rightarrow> string \<Rightarrow> optval \<Rightarrow> options" where
  "dict_set [] k v = [(k, v)]"
| "dict_set ((k', v') # kvs) k v =
     (if k' = k then (k, v) # kvs else (k', v') # dict_set kvs k v)"

fun dict_update :: "options \<Rightarrow> options \<Rightarrow> options" where
  "dict_update d [] = d"
| "dict_update d ((k, v) # kvs) = dict_update (dict_set d k v) kvs"

text \<open>
  The calls that leave the process: the admin client (\<open>mysqlsh\<close>, \<open>shellutils\<close>,
  \<open>mysqlutils\<close>), the diagnostic engine and the router deployment.  A call made through
  a \<open>dba\<close>, cluster or session object names the endpoint the object is connected to.
\<close>

datatype call =
    DiagnoseCluster
  | DiagnoseClusterCandidate string string
  | ConnectDba string "nat option"
  | CloseDba string
  | ConnectToPod string
  | CloseSession string
  | CreateDba string
  | DbaGetCluster string
  | DbaCreateCluster string string options
  | DbaRebootCluster string
  | ClusterStatus string
  | ClusterAddInstance string string options
  | ClusterRejoinInstance string string options
  | ClusterRemoveInstance string string options
  | ClusterForceQuorum string string
  | ClusterSetupRouterAccount string string options
  | SetupBackupAccount string string string
  | RunSql string string "string list"
  | QueryMembershipInfo string
  | RouterUpdateSize int

text \<open>
  The state the controller reads and writes: the process-wide ephemeral state (the mutex
  table), what the orchestrator stores for the cluster and its pods, the controller's
  own \<open>self.dba\<close> and \<open>self.dba_cluster\<close> (the endpoint each handle is connected
  to), and the external calls issued so far, oldest first.
\<close>

record world =
  ephemeral :: "string \<times> string \<times> string \<Rightarrow> string option"
  member_finalizers :: "string set"
  cluster_status :: cluster_status
  create_time :: "string option"
  cluster_info :: "cluster_info option"
  membership_status :: "string \<Rightarrow> member_status option"
  readiness_gate :: "string \<Rightarrow> bool option"
  dba :: "string option"
  dba_cluster :: "string option"
  trace :: "call list"

text \<open>
  The environment of one execution of a controller method: for each external call
  whether it raises, and the values the calls that succeed return.  Within one execution
  of a method no call is issued twice (the pods of a cluster have different endpoints,
  and the two removals of an instance differ in their options), so an environment
  describes every way the outside can answer; a method that is executed again (a retry,
  a second probe, a second connection to the cluster) is given an environment of its
  own.  The error codes are the opaque integer constants of the modules \<open>errors\<close> and
  \<open>mysqlsh\<close>; the retry fields are the parameters of \<open>shellutils.RetryLoop\<close>.
\<close>

record env =
  raises :: "call \<Rightarrow> exc option"
  diagnose_cluster_val :: ClusterDiagnostic
  diagnose_candidate_val :: candidate_status
  query_membership_info_val :: "string \<times> string \<times> string \<times> string \<times> string"
  get_pods_val :: "MySQLPod list"
  isotime_val :: string
  now_val :: string
  router_account_val :: "string \<times> string"
  backup_account_val :: "string \<times> string"
  SHERR_DBA_BADARG_INSTANCE_NOT_ONLINE :: int
  SHERR_DBA_BADARG_INSTANCE_ALREADY_IN_GR :: int
  SHERR_DBA_MEMBER_METADATA_MISSING :: int
  ER_OPTION_PREVENTS_STATEMENT :: int
  ER_NONEXISTING_GRANT :: int
  retry_max_tries :: nat
  retry_is_retriable :: "int \<Rightarrow> bool"
  retry_giveup :: "string \<times> nat option"

type_synonym 'a prog = "world \<Rightarrow> (exc + 'a) \<times> world"

text \<open>Sequencing with exceptions: a raised exception skips what follows.\<close>

definition return_prog :: "'a \<Rightarrow> 'a prog" where
  "return_prog x w = (Inr x, w)"

definition raise_prog :: "exc \<Rightarrow> 'a prog" where
  "raise_prog e w = (Inl e, w)"

definition bind_prog :: "'a prog \<Rightarrow> ('a \<Rightarrow> 'b prog) \<Rightarrow> 'b prog" where
  "bind_prog m f w = (case m w of (Inl e, w') \<Rightarrow> (Inl e, w') | (Inr x, w') \<Rightarrow> f x w')"

definition then_prog :: "'a prog \<Rightarrow> 'b prog \<Rightarrow> 'b prog" where
  "then_prog m n = bind_prog m (\<lambda>_. n)"

text \<open>\<open>try: m except ... as e: h e\<close>; the handler re-raises what it does not catch.\<close>

definition try_prog :: "'a prog \<Rightarrow> (exc \<Rightarrow> 'a prog) \<Rightarrow> 'a prog" where
  "try_prog m h w = (case m w of (Inl e, w') \<Rightarrow> h e w' | (Inr x, w') \<Rightarrow> (Inr x, w'))"

definition modify_prog :: "(world \<Rightarrow> world) \<Rightarrow> unit prog" where
  "modify_prog f w = (Inr (), f w)"

text \<open>An external call: recorded in the trace, then it raises or returns.\<close>

definition ext :: "env \<Rightarrow> call \<Rightarrow> unit prog" where
  "ext env c w =
     (case raises env c of
        Some e \<Rightarrow> (Inl e, w\<lparr>trace := trace w @ [c]\<rparr>)
      | None \<Rightarrow> (Inr (), w\<lparr>trace := trace w @ [c]\<rparr>))"

text \<open>
  Modelled from the spec: \<open>shellutils.connect_dba\<close>, which is not among the sources,
  used as \<open>with shellutils.connect_dba(endpoint) as dba: body\<close>; section 4.1,
  \<open>connect(endpoint)\<close> "opens an authenticated admin connection" or fails.  The
  connection is opened, the body runs, and the connection is closed however the body
  ends; an exception of the body goes on.
\<close>

definition with_connect_dba :: "env \<Rightarrow> string \<Rightarrow> 'a prog \<Rightarrow> 'a prog" where
  "with_connect_dba env endpoint body =
     then_prog (ext env (ConnectDba endpoint None))
       (\<lambda>w. case body w of (r, w') \<Rightarrow> (r, w'\<lparr>trace := trace w' @ [CloseDba endpoint]\<rparr>))"

text \<open>
  Modelled from the spec: \<open>shellutils.connect_to_pod\<close>, which is not among the sources,
  used as \<open>with shellutils.connect_to_pod(pod) as session: body\<close>; as
  \<open>connect_dba\<close> above.
\<close>

definition with_connect_to_pod :: "env \<Rightarrow> string \<Rightarrow> 'a prog \<Rightarrow> 'a prog" where
  "with_connect_to_pod env endpoint body =
     then_prog (ext env (ConnectToPod endpoint))
       (\<lambda>w. case body w of (r, w') \<Rightarrow> (r, w'\<lparr>trace := trace w' @ [CloseSession endpoint]\<rparr>))"

text \<open>
  Modelled from the spec: \<open>shellutils.RetryLoop(logger).call(f, ...)\<close>, which is not
  among the sources.  Section 4.4: it "catches retriable admin-client errors and retries
  with backoff, surfacing retry-later to the framework after a bounded number of
  attempts".  \<open>k\<close> counts the attempts left after this one, \<open>i\<close> numbers the attempt.
\<close>

fun RetryLoop_attempts :: "env \<Rightarrow> nat \<Rightarrow> nat \<Rightarrow> (nat \<Rightarrow> 'a prog) \<Rightarrow> 'a prog" where
  "RetryLoop_attempts env 0 i f w =
     (case f i w of
        (Inr x, w') \<Rightarrow> (Inr x, w')
      | (Inl (MysqlshError c m), w') \<Rightarrow>
          (if retry_is_retriable env c
           then (Inl (TemporaryError (fst (retry_giveup env)) (snd (retry_giveup env))), w')
           else (Inl (MysqlshError c m), w'))
      | (Inl e, w') \<Rightarrow> (Inl e, w'))"
| "RetryLoop_attempts env (Suc k) i f w =
     (case f i w of
        (Inr x, w') \<Rightarrow> (Inr x, w')
      | (Inl (MysqlshError c m), w') \<Rightarrow>
          (if retry_is_retriable env c
           then RetryLoop_attempts env k (Suc i) f w'
           else (Inl (MysqlshError c m), w'))
      | (Inl e, w') \<Rightarrow> (Inl e, w'))"

text \<open>
  Modelled from the spec: \<open>RetryLoop.call\<close>; at least one attempt is made, and
  \<open>retry_max_tries\<close> bounds their number.
\<close>

definition RetryLoop_call :: "env \<Rightarrow> (nat \<Rightarrow> 'a prog) \<Rightarrow> 'a prog" where
  "RetryLoop_call env f = RetryLoop_attempts env (retry_max_tries env - 1) 0 f"

section \<open>Cluster mutex\<close>









section \<open>Cluster controller: probing\<close>

text \<open>
  \<open>publish_status\<close>: \<open>set_cluster_status\<close> replaces the status block of the cluster.
\<close>

definition publish_status :: "env \<Rightarrow> ClusterDiagnostic \<Rightarrow> unit prog" where
  "publish_status env diag =
     modify_prog (\<lambda>w. w\<lparr>cluster_status :=
        \<lparr>cs_status = Some (diag_status diag),
         cs_onlineInstances = Some (length (online_members diag)),
         cs_lastProbeTime = Some (isotime_val env)\<rparr>\<rparr>)"

definition probe_status :: "env \<Rightarrow> ClusterDiagnostic prog" where
  "probe_status env =
     then_prog (ext env DiagnoseCluster)
       (then_prog (publish_status env (diagnose_cluster_val env))
          (return_prog (diagnose_cluster_val env)))"

text \<open>Python's truth test on a value that is \<open>None\<close> or a string.\<close>

fun str_truthy :: "string option \<Rightarrow> bool" where
  "str_truthy None = False"
| "str_truthy (Some s) = (s \<noteq> [])"

definition unreachable_states :: "diag_status list" where
  "unreachable_states =
     [DIAG_CLUSTER_UNKNOWN, DIAG_CLUSTER_ONLINE_UNCERTAIN, DIAG_CLUSTER_OFFLINE_UNCERTAIN,
      DIAG_CLUSTER_NO_QUORUM_UNCERTAIN, DIAG_CLUSTER_SPLIT_BRAIN_UNCERTAIN]"

text \<open>\<open>pod.get_membership_info("lastTransitionTime")\<close>.\<close>

definition get_lastTransitionTime :: "MySQLPod \<Rightarrow> string option" where
  "get_lastTransitionTime pod =
     (case pod_membership_info pod of None \<Rightarrow> None | Some info \<Rightarrow> mi_lastTransitionTime info)"

text \<open>
  \<open>probe_status_if_needed\<close>.  The two times are \<open>None\<close> or ISO-8601 strings
  (\<open>utils.isotime()\<close>): \<open>a and b and a < b\<close> compares them, as Python compares
  strings, only when neither is \<open>None\<close> or empty.  \<open>last_status in
  unreachable_states\<close> is false for \<open>None\<close>.
\<close>

definition probe_status_if_needed :: "env \<Rightarrow> MySQLPod \<Rightarrow> diag_status option prog" where
  "probe_status_if_needed env changed_pod w =
     (let cluster_probe_time = cs_lastProbeTime (cluster_status w);
          member_transition_time = get_lastTransitionTime changed_pod;
          last_status = cs_status (cluster_status w)
      in if (case (cluster_probe_time, member_transition_time) of
               (Some pt, Some tt) \<Rightarrow> pt \<noteq> [] \<and> tt \<noteq> [] \<and> pt < tt
             | _ \<Rightarrow> False)
            \<or> (case last_status of None \<Rightarrow> False | Some s \<Rightarrow> s \<in> set unreachable_states)
         then bind_prog (probe_status env) (\<lambda>diag. return_prog (Some (diag_status diag))) w
         else (Inr last_status, w))"

section \<open>Cluster controller: administrative operations\<close>

text \<open>
  Modelled from the spec: \<open>MySQLPod.add_member_finalizer\<close> of \<open>cluster_api\<close>, which is
  not among the sources; section 6, "add/remove a named finalizer on pods".
\<close>

definition add_member_finalizer :: "MySQLPod \<Rightarrow> unit prog" where
  "add_member_finalizer pod =
     modify_prog (\<lambda>w. w\<lparr>member_finalizers := insert (pod_name pod) (member_finalizers w)\<rparr>)"

text \<open>
  Modelled from the spec: \<open>MySQLPod.remove_member_finalizer\<close> of \<open>cluster_api\<close>, which
  is not among the sources; section 6, "add/remove a named finalizer on pods".
\<close>

definition remove_member_finalizer :: "MySQLPod \<Rightarrow> unit prog" where
  "remove_member_finalizer pod =
     modify_prog (\<lambda>w. w\<lparr>member_finalizers := member_finalizers w - {pod_name pod}\<rparr>)"

text \<open>
  Modelled from the spec: \<open>InnoDBCluster.update_cluster_info\<close> of \<open>cluster_api\<close>, which
  is not among the sources; section 6, the cluster status fields \<open>initialDataSource\<close> and
  \<open>incrementalRecoveryAllowed\<close>.
\<close>

definition update_cluster_info :: "cluster_info \<Rightarrow> unit prog" where
  "update_cluster_info info = modify_prog (\<lambda>w. w\<lparr>cluster_info := Some info\<rparr>)"

text \<open>
  Modelled from the spec: \<open>InnoDBCluster.incremental_recovery_allowed\<close> of
  \<open>cluster_api\<close>, which is not among the sources; section 4.4.1, incremental recovery
  "explicitly allowed by prior cluster state".
\<close>

definition incremental_recovery_allowed :: "world \<Rightarrow> bool" where
  "incremental_recovery_allowed w =
     (case cluster_info w of None \<Rightarrow> False | Some info \<Rightarrow> incrementalRecoveryAllowed info)"

text \<open>
  Modelled from the spec: \<open>MySQLPod.update_membership_status\<close> of \<open>cluster_api\<close>, which
  is not among the sources; section 3, the observed membership fields of a pod.
\<close>

definition update_membership_status ::
  "MySQLPod \<Rightarrow> string \<times> string \<times> string \<times> string \<times> string \<Rightarrow> bool option \<Rightarrow> unit prog" where
  "update_membership_status pod info joined =
     (case info of (member_id, mrole, mstatus, view_id, version) \<Rightarrow>
        modify_prog (\<lambda>w. w\<lparr>membership_status := (membership_status w)(pod_name pod :=
           Some \<lparr>ms_member_id = member_id, ms_role = mrole, ms_status = mstatus,
                 ms_view_id = view_id, ms_version = version, ms_joined = joined\<rparr>)\<rparr>))"

text \<open>
  Modelled from the spec: \<open>MySQLPod.update_member_readiness_gate\<close> of \<open>cluster_api\<close>,
  which is not among the sources; section 3, the readiness gate "ready" of a pod.
\<close>

definition update_member_readiness_gate :: "MySQLPod \<Rightarrow> bool \<Rightarrow> unit prog" where
  "update_member_readiness_gate pod v =
     modify_prog (\<lambda>w. w\<lparr>readiness_gate := (readiness_gate w)(pod_name pod := Some v)\<rparr>)"

text \<open>
  Modelled from the spec: \<open>InnoDBCluster.set_create_time\<close> of \<open>cluster_api\<close>, which is
  not among the sources; section 6, the cluster status field \<open>createTime\<close>.
\<close>

definition set_create_time :: "string \<Rightarrow> unit prog" where
  "set_create_time t = modify_prog (\<lambda>w. w\<lparr>create_time := Some t\<rparr>)"

text \<open>
  A method called on \<open>self.dba_cluster\<close>; on \<open>None\<close> Python raises \<open>AttributeError\<close>.
\<close>

definition on_dba_cluster :: "env \<Rightarrow> (string \<Rightarrow> call) \<Rightarrow> unit prog" where
  "on_dba_cluster env mk w =
     (case dba_cluster w of
        None \<Rightarrow> (Inl (OtherException ''AttributeError''), w)
      | Some h \<Rightarrow> ext env (mk h) w)"

definition common_gr_options :: options where
  "common_gr_options = [(''exitStateAction'', OptStr ''ABORT_SERVER'')]"

definition probe_member_status :: "env \<Rightarrow> MySQLPod \<Rightarrow> string \<Rightarrow> bool \<Rightarrow> unit prog" where
  "probe_member_status env pod session_endpoint joined =
     then_prog (ext env (QueryMembershipInfo session_endpoint))
       (case query_membership_info_val env of (member_id, mrole, mstatus, view_id, version) \<Rightarrow>
          then_prog
            (update_membership_status pod (member_id, mrole, mstatus, view_id, version)
               (Some joined))
            (if mstatus = ''ONLINE'' then update_member_readiness_gate pod True
             else update_member_readiness_gate pod False))"

text \<open>
  The loop of \<open>try_connect\<close> inside \<open>connect_to_cluster\<close>, with the statements after
  the loop in the equation for the empty list.  It returns the pod it connected to or
  raises; \<open>last_exc\<close> and \<open>offline_pods\<close> are the local variables of the source.
\<close>

fun try_connect_loop ::
  "env \<Rightarrow> MySQLPod list \<Rightarrow> MySQLPod list \<Rightarrow> exc option \<Rightarrow> string list \<Rightarrow> MySQLPod prog" where
  "try_connect_loop env all_pods [] last_exc offline_pods w =
     (if length offline_pods = length all_pods
      then (Inl (TemporaryError ''Could not connect to any cluster member'' (Some 15)), w)
      else (case last_exc of
              Some e \<Rightarrow> (Inl e, w)
            | None \<Rightarrow>
                (Inl (TemporaryError ''Could not connect to any cluster member'' (Some 15)), w)))"
| "try_connect_loop env all_pods (pod # pods) last_exc offline_pods w =
     (if pod_name pod \<in> set offline_pods \<or> pod_deleting pod
      then try_connect_loop env all_pods pods last_exc offline_pods w
      else
        (case ext env (CreateDba (pod_endpoint pod)) w of
           (Inl e, w1) \<Rightarrow> try_connect_loop env all_pods pods (Some e) offline_pods w1
         | (Inr _, w1) \<Rightarrow>
             (case then_prog (ext env (DbaGetCluster (pod_endpoint pod)))
                     (then_prog (modify_prog (\<lambda>w. w\<lparr>dba_cluster := Some (pod_endpoint pod)\<rparr>))
                        (ext env (ClusterStatus (pod_endpoint pod))))
                     (w1\<lparr>dba := Some (pod_endpoint pod)\<rparr>) of
                (Inr _, w2) \<Rightarrow> (Inr pod, w2)
              | (Inl (MysqlshError c m), w2) \<Rightarrow>
                  (if c = SHERR_DBA_BADARG_INSTANCE_NOT_ONLINE env
                   then try_connect_loop env all_pods pods last_exc
                          (offline_pods @ [pod_name pod]) w2
                   else try_connect_loop env all_pods pods last_exc offline_pods w2)
              | (Inl e, w2) \<Rightarrow> try_connect_loop env all_pods pods last_exc offline_pods w2)))"

definition connect_to_cluster :: "env \<Rightarrow> MySQLPod prog" where
  "connect_to_cluster env = try_connect_loop env (get_pods_val env) (get_pods_val env) None []"

definition connect_to_primary :: "env \<Rightarrow> MySQLPod option \<Rightarrow> string option prog" where
  "connect_to_primary env primary_pod =
     then_prog
       (case primary_pod of
          Some p \<Rightarrow>
            then_prog (ext env (ConnectDba (pod_endpoint p) (Some 2)))
              (then_prog (modify_prog (\<lambda>w. w\<lparr>dba := Some (pod_endpoint p)\<rparr>))
                 (then_prog (ext env (DbaGetCluster (pod_endpoint p)))
                    (modify_prog (\<lambda>w. w\<lparr>dba_cluster := Some (pod_endpoint p)\<rparr>))))
        | None \<Rightarrow> then_prog (connect_to_cluster env) (return_prog ()))
       (\<lambda>w. (Inr (dba_cluster w), w))"

text \<open>\<open>log_mysql_info\<close>: the second query sits in a \<open>try\<close> with a bare \<open>except\<close>.\<close>

definition log_mysql_info :: "env \<Rightarrow> string \<Rightarrow> unit prog" where
  "log_mysql_info env session_endpoint =
     then_prog
       (ext env (RunSql session_endpoint
          ''select @@server_id, @@server_uuid, @@report_host'' []))
       (try_prog
          (ext env (RunSql session_endpoint
             ''select @@globals.gtid_executed, @@globals.gtid_purged'' []))
          (\<lambda>e. return_prog ()))"

text \<open>
  Lines 185 to 203 of \<open>create_cluster\<close>: the value of \<open>assume_gtid_set_complete\<close>,
  with the cluster information recorded on the way; \<open>assert 0\<close> raises.
\<close>

definition create_cluster_data_source :: "InnoDBCluster \<Rightarrow> bool prog" where
  "create_cluster_data_source cluster =
     (case initDB cluster of
        Some init \<Rightarrow>
          (case clone init of
             Some c \<Rightarrow>
               then_prog
                 (update_cluster_info
                    \<lparr>initialDataSource = ''clone='' @ clone_uri c,
                     incrementalRecoveryAllowed = False\<rparr>)
                 (return_prog False)
           | None \<Rightarrow> raise_prog (AssertionError ''internal error''))
      | None \<Rightarrow>
          then_prog
            (update_cluster_info
               \<lparr>initialDataSource = ''blank'', incrementalRecoveryAllowed = True\<rparr>)
            (return_prog True))"

definition create_options :: "bool \<Rightarrow> options" where
  "create_options assume_gtid_set_complete =
     dict_update
       [(''gtidSetIsComplete'', OptBool assume_gtid_set_complete),
        (''startOnBoot'', OptBool False),
        (''memberSslMode'', OptStr ''REQUIRED'')]
       common_gr_options"

definition post_create_actions :: "env \<Rightarrow> InnoDBCluster \<Rightarrow> string \<Rightarrow> string \<Rightarrow> unit prog" where
  "post_create_actions env cluster dba_endpoint cluster_handle =
     (case router_account_val env of (user, password) \<Rightarrow>
        bind_prog
          (try_prog
             (then_prog (ext env (RunSql dba_endpoint
                           (''show grants for ?@'' @ [CHR 0x27] @ ''%'' @ [CHR 0x27]) [user]))
                (return_prog True))
             (\<lambda>e. case e of
                MysqlshError c m \<Rightarrow>
                  if c = ER_NONEXISTING_GRANT env then return_prog False else raise_prog e
              | _ \<Rightarrow> raise_prog e))
          (\<lambda>update.
             then_prog
               (ext env (ClusterSetupRouterAccount cluster_handle user
                  [(''password'', OptStr password), (''update'', OptBool update)]))
               (case backup_account_val env of (buser, bpassword) \<Rightarrow>
                  then_prog (ext env (SetupBackupAccount dba_endpoint buser bpassword))
                    (case routers cluster of
                       Some n \<Rightarrow>
                         if n \<noteq> 0 then ext env (RouterUpdateSize n) else return_prog ()
                     | None \<Rightarrow> return_prog ()))))"

text \<open>
  The \<open>try\<close> statement of lines 234 to 252: the \<open>create_cluster\<close> primitive and the
  handler of \<open>mysqlsh.Error\<close>, which ends in a bare \<open>raise\<close>.
\<close>

definition create_cluster_primitive :: "env \<Rightarrow> InnoDBCluster \<Rightarrow> MySQLPod \<Rightarrow> options \<Rightarrow> unit prog" where
  "create_cluster_primitive env cluster seed_pod opts =
     try_prog
       (then_prog
          (ext env (DbaCreateCluster (pod_endpoint seed_pod) (cluster_name cluster) opts))
          (modify_prog (\<lambda>w. w\<lparr>dba_cluster := Some (pod_endpoint seed_pod)\<rparr>)))
       (\<lambda>e. case e of
          MysqlshError c m \<Rightarrow>
            then_prog (remove_member_finalizer seed_pod)
              (then_prog
                 (if c = SHERR_DBA_BADARG_INSTANCE_ALREADY_IN_GR env
                  then try_prog
                         (ext env (RunSql (pod_endpoint seed_pod) ''STOP GROUP_REPLICATION'' []))
                         (\<lambda>e2. case e2 of
                            MysqlshError c2 m2 \<Rightarrow>
                              raise_prog (TemporaryError
                                ''GR already running while creating cluster but could not stop it''
                                (Some 3))
                          | _ \<Rightarrow> raise_prog e2)
                  else return_prog ())
                 (raise_prog e))
        | _ \<Rightarrow> raise_prog e)"

text \<open>The body of the \<open>with\<close> statement of \<open>create_cluster\<close>, lines 219 to 258.\<close>

definition create_cluster_body :: "env \<Rightarrow> InnoDBCluster \<Rightarrow> MySQLPod \<Rightarrow> bool \<Rightarrow> unit prog" where
  "create_cluster_body env cluster seed_pod assume_gtid_set_complete =
     then_prog
       (\<lambda>w. case ext env (DbaGetCluster (pod_endpoint seed_pod)) w of
          (Inr _, w') \<Rightarrow> (Inr (), w'\<lparr>dba_cluster := Some (pod_endpoint seed_pod)\<rparr>)
        | (Inl e, w') \<Rightarrow> (Inr (), w'\<lparr>dba_cluster := None\<rparr>))
       (then_prog (add_member_finalizer seed_pod)
          (then_prog
             (\<lambda>w. if dba_cluster w = None
                then then_prog (log_mysql_info env (pod_endpoint seed_pod))
                       (create_cluster_primitive env cluster seed_pod
                          (create_options assume_gtid_set_complete)) w
                else (Inr (), w))
             (then_prog
                (probe_member_status env seed_pod (pod_endpoint seed_pod) True)
                (then_prog (on_dba_cluster env ClusterStatus)
                   (post_create_actions env cluster (pod_endpoint seed_pod)
                      (pod_endpoint seed_pod))))))"

definition create_cluster :: "env \<Rightarrow> InnoDBCluster \<Rightarrow> MySQLPod \<Rightarrow> unit prog" where
  "create_cluster env cluster seed_pod =
     bind_prog (create_cluster_data_source cluster)
       (\<lambda>assume_gtid_set_complete.
          with_connect_dba env (pod_endpoint seed_pod)
            (create_cluster_body env cluster seed_pod assume_gtid_set_complete))"

definition reboot_cluster :: "env \<Rightarrow> unit prog" where
  "reboot_cluster env =
     (case get_pods_val env of
        [] \<Rightarrow> raise_prog IndexError
      | seed_pod # _ \<Rightarrow>
          with_connect_dba env (pod_endpoint seed_pod)
            (then_prog (log_mysql_info env (pod_endpoint seed_pod))
               (then_prog (add_member_finalizer seed_pod)
                  (then_prog (ext env (DbaRebootCluster (pod_endpoint seed_pod)))
                     (ext env (ClusterStatus (pod_endpoint seed_pod)))))))"

definition force_quorum :: "env \<Rightarrow> MySQLPod \<Rightarrow> unit prog" where
  "force_quorum env seed_pod =
     then_prog (connect_to_primary env (Some seed_pod))
       (then_prog
          (on_dba_cluster env (\<lambda>h. ClusterForceQuorum h (pod_endpoint seed_pod)))
          (on_dba_cluster env ClusterStatus))"

definition destroy_cluster :: "env \<Rightarrow> MySQLPod \<Rightarrow> unit prog" where
  "destroy_cluster env last_pod =
     bind_prog
       (try_prog
          (then_prog
             (with_connect_to_pod env (pod_endpoint last_pod)
                (ext env (RunSql (pod_endpoint last_pod) ''STOP group_replication'' [])))
             (return_prog False))
          (\<lambda>e. then_prog (remove_member_finalizer last_pod) (return_prog True)))
       (\<lambda>returned. if returned then return_prog () else remove_member_finalizer last_pod)"

definition join_instance :: "env \<Rightarrow> MySQLPod \<Rightarrow> unit prog" where
  "join_instance env pod =
     bind_prog (connect_to_cluster env)
       (\<lambda>peer_pod.
          then_prog (log_mysql_info env (pod_endpoint pod))
            (bind_prog
               (\<lambda>w. (Inr (dict_update
                        [(''recoveryMethod'',
                          OptStr (if incremental_recovery_allowed w then ''incremental''
                                  else ''clone''))]
                        common_gr_options), w))
               (\<lambda>add_options.
                  then_prog (add_member_finalizer pod)
                    (then_prog
                       (on_dba_cluster env
                          (\<lambda>h. ClusterAddInstance h (pod_endpoint pod) add_options))
                       (probe_member_status env pod (pod_endpoint pod) True)))))"

definition rejoin_instance :: "env \<Rightarrow> MySQLPod \<Rightarrow> unit prog" where
  "rejoin_instance env pod =
     bind_prog (connect_to_cluster env)
       (\<lambda>peer_pod.
          then_prog (log_mysql_info env (pod_endpoint pod))
            (then_prog
               (on_dba_cluster env (\<lambda>h. ClusterRejoinInstance h (pod_endpoint pod) []))
               (probe_member_status env pod (pod_endpoint pod) False)))"

text \<open>
  \<open>reconcile_pod\<close>.  \<open>env\<close> is the environment of its own calls, \<open>env'\<close> the one of
  the \<open>join_instance\<close> or \<open>rejoin_instance\<close> it runs, which connects to the cluster a
  second time.
\<close>

definition reconcile_pod ::
  "env \<Rightarrow> env \<Rightarrow> InnoDBCluster \<Rightarrow> MySQLPod option \<Rightarrow> MySQLPod \<Rightarrow> unit prog" where
  "reconcile_pod env env' cluster primary_pod pod =
     with_connect_dba env (pod_endpoint pod)
       (bind_prog (connect_to_primary env primary_pod)
          (\<lambda>cluster_handle.
             then_prog
               (\<lambda>w. case dba w of
                  None \<Rightarrow> (Inl (OtherException ''AttributeError''), w)
                | Some d \<Rightarrow> ext env (DiagnoseClusterCandidate d (pod_endpoint pod)) w)
               (if pod_deleting pod \<or> cluster_deleting cluster then return_prog ()
                else if diagnose_candidate_val env = DIAG_CANDIDATE_JOINABLE
                  then join_instance env' pod
                else if diagnose_candidate_val env = DIAG_CANDIDATE_REJOINABLE
                  then rejoin_instance env' pod
                else if diagnose_candidate_val env = DIAG_CANDIDATE_MEMBER
                  then return_prog ()
                else if diagnose_candidate_val env = DIAG_CANDIDATE_UNREACHABLE
                  then return_prog ()
                else return_prog ())))"

text \<open>
  \<open>remove_instance\<close>.  The first block is lines 439 to 447 (\<open>peer_pod\<close>, \<open>None\<close> when
  the connection error is ignored), the second lines 451 to 466 (\<open>removed\<close>), the third
  lines 468 to 487; the finalizer is removed by the last statement of the method.
\<close>

definition remove_instance_peer :: "env \<Rightarrow> InnoDBCluster \<Rightarrow> MySQLPod option prog" where
  "remove_instance_peer env cluster =
     try_prog
       (bind_prog (connect_to_cluster env) (\<lambda>peer_pod. return_prog (Some peer_pod)))
       (\<lambda>e. case e of
          MysqlshError c m \<Rightarrow>
            if cluster_deleting cluster then return_prog None else raise_prog e
        | _ \<Rightarrow> raise_prog e)"

definition remove_instance_graceful :: "env \<Rightarrow> MySQLPod \<Rightarrow> MySQLPod \<Rightarrow> bool prog" where
  "remove_instance_graceful env pod peer_pod =
     try_prog
       (then_prog
          (on_dba_cluster env (\<lambda>h. ClusterRemoveInstance h (pod_endpoint pod) []))
          (return_prog True))
       (\<lambda>e. case e of
          MysqlshError c m \<Rightarrow>
            if c = ER_OPTION_PREVENTS_STATEMENT env
            then raise_prog (TemporaryError
                   (pod_name peer_pod @ '' is a PRIMARY but super_read_only is ON'') (Some 5))
            else if c = SHERR_DBA_MEMBER_METADATA_MISSING env then return_prog True
            else return_prog False
        | _ \<Rightarrow> raise_prog e)"

definition remove_instance_forced :: "env \<Rightarrow> InnoDBCluster \<Rightarrow> MySQLPod \<Rightarrow> unit prog" where
  "remove_instance_forced env cluster pod =
     try_prog
       (on_dba_cluster env
          (\<lambda>h. ClusterRemoveInstance h (pod_endpoint pod) [(''force'', OptBool True)]))
       (\<lambda>e. case e of
          MysqlshError c m \<Rightarrow>
            if c = SHERR_DBA_MEMBER_METADATA_MISSING env then return_prog ()
            else if cluster_deleting cluster then return_prog ()
            else raise_prog e
        | _ \<Rightarrow> raise_prog e)"

definition remove_instance :: "env \<Rightarrow> InnoDBCluster \<Rightarrow> MySQLPod \<Rightarrow> bool \<Rightarrow> unit prog" where
  "remove_instance env cluster pod force =
     then_prog
       (if length (get_pods_val env) > 1
        then bind_prog (remove_instance_peer env cluster)
               (\<lambda>peer_pod. case peer_pod of
                  Some peer \<Rightarrow>
                    bind_prog
                      (if \<not> force then remove_instance_graceful env pod peer
                       else return_prog False)
                      (\<lambda>removed.
                         if \<not> removed then remove_instance_forced env cluster pod
                         else return_prog ())
                | None \<Rightarrow> return_prog ())
        else return_prog ())
       (remove_member_finalizer pod)"

section \<open>Cluster controller: repair and event sinks\<close>

text \<open>
  \<open>repair_cluster\<close>.  Every \<open>return\<close> of the method is a bare \<open>return\<close> and the
  branches that run to the end of the method return \<open>None\<close> as well.  \<open>envs i\<close> is the
  environment of attempt \<open>i\<close> of a retry loop.
\<close>

definition repair_cluster ::
  "env \<Rightarrow> (nat \<Rightarrow> env) \<Rightarrow> MySQLPod \<Rightarrow> ClusterDiagnostic \<Rightarrow> pyval prog" where
  "repair_cluster env envs pod diagnostic =
     (if diag_status diagnostic = DIAG_CLUSTER_ONLINE then return_prog PyNone
      else if diag_status diagnostic = DIAG_CLUSTER_ONLINE_PARTIAL then return_prog PyNone
      else if diag_status diagnostic = DIAG_CLUSTER_ONLINE_UNCERTAIN then return_prog PyNone
      else if diag_status diagnostic = DIAG_CLUSTER_OFFLINE then
        (if pod_index pod = 0
         then then_prog (RetryLoop_call env (\<lambda>i. reboot_cluster (envs i)))
                (return_prog PyNone)
         else return_prog PyNone)
      else if diag_status diagnostic = DIAG_CLUSTER_OFFLINE_UNCERTAIN then
        raise_prog (TemporaryError
          (''Unreachable members found while in state ''
             @ status_name (diag_status diagnostic) @ '', waiting...'') None)
      else if diag_status diagnostic = DIAG_CLUSTER_NO_QUORUM then
        (case quorum_candidates diagnostic of
           [] \<Rightarrow> raise_prog IndexError
         | candidate # _ \<Rightarrow>
             then_prog (RetryLoop_call env (\<lambda>i. force_quorum (envs i) candidate))
               (return_prog PyNone))
      else if diag_status diagnostic = DIAG_CLUSTER_NO_QUORUM_UNCERTAIN then
        raise_prog (TemporaryError
          (''Unreachable members found while in state ''
             @ status_name (diag_status diagnostic) @ '', waiting...'') None)
      else if diag_status diagnostic = DIAG_CLUSTER_SPLIT_BRAIN then
        raise_prog (PermanentError
          (''Unable to recover from current cluster state. User action required. state=''
             @ status_name (diag_status diagnostic)))
      else if diag_status diagnostic = DIAG_CLUSTER_SPLIT_BRAIN_UNCERTAIN then
        raise_prog (PermanentError
          (''Unable to recover from current cluster state. User action required. state=''
             @ status_name (diag_status diagnostic)))
      else if diag_status diagnostic = DIAG_CLUSTER_UNKNOWN then
        raise_prog (TemporaryError
          (''No members of the cluster could be reached. state=''
             @ status_name (diag_status diagnostic)) None)
      else if diag_status diagnostic = DIAG_CLUSTER_INVALID then
        raise_prog (PermanentError
          (''Unable to recover from current cluster state. User action required. state=''
             @ status_name (diag_status diagnostic)))
      else if diag_status diagnostic = DIAG_CLUSTER_FINALIZING then return_prog PyNone
      else raise_prog (PermanentError
             (''Invalid cluster state '' @ status_name (diag_status diagnostic))))"

text \<open>
  \<open>on_pod_created\<close>.  \<open>env\<close> is the environment of the probe, \<open>envs i\<close> and
  \<open>envs' i\<close> those of attempt \<open>i\<close> of the retry loop the taken branch runs.
\<close>

definition on_pod_created ::
  "env \<Rightarrow> (nat \<Rightarrow> env) \<Rightarrow> (nat \<Rightarrow> env) \<Rightarrow> InnoDBCluster \<Rightarrow> MySQLPod \<Rightarrow> unit prog" where
  "on_pod_created env envs envs' cluster pod =
     bind_prog (probe_status env)
       (\<lambda>diag.
          if diag_status diag = DIAG_CLUSTER_INITIALIZING then
            (if pod_index pod = 0 then
               then_prog
                 (\<lambda>w. if create_time w \<noteq> None
                    then (Inl (PermanentError
                      ''Internal inconsistency: cluster marked as initialized, but create requested again''), w)
                    else (Inr (), w))
                 (then_prog (RetryLoop_call env (\<lambda>i. create_cluster (envs i) cluster pod))
                    (set_create_time (now_val env)))
             else raise_prog (TemporaryError ''Cluster is not yet ready'' (Some 15)))
          else if diag_status diag \<in> set [DIAG_CLUSTER_ONLINE, DIAG_CLUSTER_ONLINE_PARTIAL,
                                          DIAG_CLUSTER_ONLINE_UNCERTAIN] then
            RetryLoop_call env (\<lambda>i. reconcile_pod (envs i) (envs' i) cluster (primary diag) pod)
          else
            then_prog (repair_cluster env envs pod diag)
              (raise_prog (TemporaryError
                 (''Cluster repair from state '' @ status_name (diag_status diag)
                    @ '' attempted'') (Some 3))))"

text \<open>
  The \<open>else\<close> block of \<open>on_pod_deleted\<close>, lines 616 to 618: the repair, and the
  \<open>raise\<close> behind the truth test of what \<open>repair_cluster\<close> returned.
\<close>

definition on_pod_deleted_repair ::
  "env \<Rightarrow> (nat \<Rightarrow> env) \<Rightarrow> MySQLPod \<Rightarrow> ClusterDiagnostic \<Rightarrow> unit prog" where
  "on_pod_deleted_repair env envs pod diag =
     bind_prog (repair_cluster env envs pod diag)
       (\<lambda>r. if truthy r
          then raise_prog (TemporaryError
                 (''Cluster repair from state '' @ status_name (diag_status diag)
                    @ '' attempted'') (Some 3))
          else return_prog ())"

text \<open>
  \<open>on_pod_deleted\<close>; it returns \<open>None\<close>.  \<open>env\<close> is the environment of the first
  probe and of \<open>destroy_cluster\<close>, \<open>envs i\<close> that of attempt \<open>i\<close> of the retry loop
  that runs, \<open>env_last\<close> that of the probe at the end.
\<close>

definition on_pod_deleted ::
  "env \<Rightarrow> (nat \<Rightarrow> env) \<Rightarrow> env \<Rightarrow> InnoDBCluster \<Rightarrow> MySQLPod \<Rightarrow> unit prog" where
  "on_pod_deleted env envs env_last cluster pod =
     bind_prog (probe_status env)
       (\<lambda>diag.
          if cluster_deleting cluster \<and> pod_index pod = 0 then
            then_prog (destroy_cluster env pod) (remove_member_finalizer pod)
          else
            then_prog
              (if pod_deleting pod
                  \<or> diag_status diag \<in> set [DIAG_CLUSTER_ONLINE, DIAG_CLUSTER_ONLINE_PARTIAL,
                       DIAG_CLUSTER_ONLINE_UNCERTAIN, DIAG_CLUSTER_FINALIZING]
               then RetryLoop_call env (\<lambda>i. remove_instance (envs i) cluster pod False)
               else on_pod_deleted_repair env envs pod diag)
              (then_prog (probe_status env_last) (return_prog ())))"

section \<open>Group monitor: connecting\<close>

text \<open>
  A row of \<open>shellutils.query_members\<close>: member id, role, status, view id, endpoint,
  version.
\<close>

type_synonym member = "string \<times> string \<times> string \<times> string \<times> string \<times> string"

text \<open>
  The external calls of a monitored cluster.  \<open>GetSession\<close> and \<open>JumpToPrimary\<close>
  carry the number of the loop of \<open>find_primary\<close> that makes the call (1 or 2), the
  calls on a session its identity.
\<close>

datatype mcall =
    GetSession nat string
  | JumpToPrimary nat nat
  | SessionClose nat
  | SessionRunSql nat string
  | EnableNotices nat "string list"
  | ParseUri string
  | QueryMembers "nat option"
  | HandlerCall "member list" bool

text \<open>
  The environment of one pass of a monitored cluster: which calls raise, what the others
  return, the two readings of \<open>time.time()\<close> in \<open>ensure_connected\<close> (the one in the
  test and the one stored), and the bounds of the client error codes.
\<close>

record menv =
  m_raises :: "mcall \<Rightarrow> exc option"
  m_get_pods_val :: "MySQLPod list"
  get_session_val :: "nat \<Rightarrow> string \<Rightarrow> xsession"
  jump_to_primary_val :: "nat \<Rightarrow> xsession \<Rightarrow> xsession option"
  parse_uri_val :: "string \<Rightarrow> string \<times> string"
  query_members_val :: "member list"
  time_check :: real
  time_stamp :: real
  CR_MIN_ERROR :: int
  CR_MAX_ERROR :: int

definition k_connect_retry_interval :: real where
  "k_connect_retry_interval = 10"

definition mext :: "menv \<Rightarrow> mcall \<Rightarrow> mcall list \<Rightarrow> (exc + unit) \<times> mcall list" where
  "mext env c tr =
     (case m_raises env c of
        Some e \<Rightarrow> (Inl e, tr @ [c])
      | None \<Rightarrow> (Inr (), tr @ [c]))"

definition try_connect ::
  "menv \<Rightarrow> nat \<Rightarrow> MySQLPod \<Rightarrow> mcall list \<Rightarrow> (exc + xsession option) \<times> mcall list" where
  "try_connect env pass pod tr =
     (case mext env (GetSession pass (pod_xendpoint pod)) tr of
        (Inr _, tr') \<Rightarrow> (Inr (Some (get_session_val env pass (pod_xendpoint pod))), tr')
      | (Inl (MysqlshError c m), tr') \<Rightarrow> (Inr None, tr')
      | (Inl e, tr') \<Rightarrow> (Inl e, tr'))"

text \<open>
  One loop of \<open>find_primary\<close>; the first loop skips the pods whose membership
  information does not say PRIMARY.  \<open>Inr (Inl s)\<close> is \<open>return s, True\<close>,
  \<open>Inr (Inr not_primary)\<close> the end of the loop.
\<close>

fun find_primary_loop ::
  "menv \<Rightarrow> nat \<Rightarrow> MySQLPod list \<Rightarrow> xsession option \<Rightarrow> mcall list
     \<Rightarrow> (exc + (xsession + xsession option)) \<times> mcall list" where
  "find_primary_loop env pass [] not_primary tr = (Inr (Inr not_primary), tr)"
| "find_primary_loop env pass (pod # pods) not_primary tr =
     (if pass = 1
         \<and> \<not> (case pod_membership_info pod of
                 None \<Rightarrow> False
               | Some info \<Rightarrow> mi_role info = Some ''PRIMARY'')
      then find_primary_loop env pass pods not_primary tr
      else
        (case try_connect env pass pod tr of
           (Inl e, tr1) \<Rightarrow> (Inl e, tr1)
         | (Inr None, tr1) \<Rightarrow> find_primary_loop env pass pods not_primary tr1
         | (Inr (Some sess), tr1) \<Rightarrow>
             (case mext env (JumpToPrimary pass (sess_id sess)) tr1 of
                (Inl e, tr2) \<Rightarrow> (Inl e, tr2)
              | (Inr _, tr2) \<Rightarrow>
                  (case jump_to_primary_val env pass sess of
                     Some s \<Rightarrow>
                       (if sess_id s \<noteq> sess_id sess
                        then (case mext env (SessionClose (sess_id sess)) tr2 of
                                (Inl e, tr3) \<Rightarrow> (Inl e, tr3)
                              | (Inr _, tr3) \<Rightarrow> (Inr (Inl s), tr3))
                        else (Inr (Inl s), tr2))
                   | None \<Rightarrow> find_primary_loop env pass pods (Some sess) tr2))))"

definition find_primary ::
  "menv \<Rightarrow> mcall list \<Rightarrow> (exc + xsession option \<times> bool) \<times> mcall list" where
  "find_primary env tr =
     (case find_primary_loop env 1 (m_get_pods_val env) None tr of
        (Inl e, tr1) \<Rightarrow> (Inl e, tr1)
      | (Inr (Inl s), tr1) \<Rightarrow> (Inr (Some s, True), tr1)
      | (Inr (Inr not_primary), tr1) \<Rightarrow>
          (case find_primary_loop env 2 (m_get_pods_val env) not_primary tr1 of
             (Inl e, tr2) \<Rightarrow> (Inl e, tr2)
           | (Inr (Inl s), tr2) \<Rightarrow> (Inr (Some s, True), tr2)
           | (Inr (Inr not_primary'), tr2) \<Rightarrow> (Inr (not_primary', False), tr2)))"

text \<open>
  The calls inside the \<open>try\<close> of \<open>connect_to_primary\<close>; the three assignments after
  them cannot raise.
\<close>

definition session_setup :: "menv \<Rightarrow> xsession \<Rightarrow> mcall list \<Rightarrow> (exc + unit) \<times> mcall list" where
  "session_setup env sess tr =
     (case mext env (SessionRunSql (sess_id sess) ''set session mysqlx_wait_timeout = 86400'') tr of
        (Inl e, tr1) \<Rightarrow> (Inl e, tr1)
      | (Inr _, tr1) \<Rightarrow>
          (case mext env (EnableNotices (sess_id sess) [''GRViewChanged'']) tr1 of
             (Inl e, tr2) \<Rightarrow> (Inl e, tr2)
           | (Inr _, tr2) \<Rightarrow> mext env (ParseUri (sess_uri sess)) tr2))"

text \<open>
  \<open>MonitoredCluster.connect_to_primary\<close>: a \<open>while True\<close> loop that goes round again
  on a client error.  The first argument bounds the number of rounds; \<open>None\<close> says the
  bound was reached.  \<open>envs i\<close> is the environment of round \<open>i\<close>.
\<close>

fun MonitoredCluster_connect_to_primary ::
  "nat \<Rightarrow> nat \<Rightarrow> (nat \<Rightarrow> menv) \<Rightarrow> 'h MonitoredCluster \<Rightarrow> mcall list
     \<Rightarrow> ((exc + unit) \<times> 'h MonitoredCluster \<times> mcall list) option" where
  "MonitoredCluster_connect_to_primary 0 i envs self tr = None"
| "MonitoredCluster_connect_to_primary (Suc fuel) i envs self tr =
     (case find_primary (envs i) tr of
        (Inl e, tr1) \<Rightarrow> Some (Inl e, self, tr1)
      | (Inr (None, is_primary), tr1) \<Rightarrow> Some (Inr (), self\<lparr>session := None\<rparr>, tr1)
      | (Inr (Some sess, is_primary), tr1) \<Rightarrow>
          (case session_setup (envs i) sess tr1 of
             (Inr _, tr2) \<Rightarrow>
               Some (Inr (),
                     self\<lparr>target := Some (fst (parse_uri_val (envs i) (sess_uri sess)) @ '':''
                                          @ snd (parse_uri_val (envs i) (sess_uri sess))),
                          target_not_primary := Some (\<not> is_primary),
                          session := Some sess\<rparr>,
                     tr2)
           | (Inl (MysqlshError c m), tr2) \<Rightarrow>
               (if CR_MAX_ERROR (envs i) \<ge> c \<and> c \<ge> CR_MIN_ERROR (envs i)
                then MonitoredCluster_connect_to_primary fuel (Suc i) envs self tr2
                else Some (Inl (MysqlshError c m), self, tr2))
           | (Inl e, tr2) \<Rightarrow> Some (Inl e, self, tr2)))"

text \<open>
  The loop over the members in \<open>on_view_change\<close>: the value of \<open>primary\<close> and of
  \<open>force_reconnect\<close> when the loop ends or breaks.
\<close>

fun view_change_loop :: "string option \<Rightarrow> member list \<Rightarrow> string option \<Rightarrow> string option \<times> bool" where
  "view_change_loop last_primary [] prim = (prim, False)"
| "view_change_loop last_primary ((member_id, mrole, mstatus, view_id, endpoint, version) # ms) prim =
     (if last_primary = Some member_id \<and> mrole \<noteq> ''PRIMARY'' then (prim, True)
      else view_change_loop last_primary ms
             (if mrole = ''PRIMARY'' \<and> \<not> str_truthy prim then Some member_id else prim))"

definition on_view_change ::
  "menv \<Rightarrow> string option \<Rightarrow> 'h MonitoredCluster \<Rightarrow> mcall list
     \<Rightarrow> (exc + unit) \<times> 'h MonitoredCluster \<times> mcall list" where
  "on_view_change env view_id self tr =
     (case mext env (QueryMembers (map_option sess_id (session self))) tr of
        (Inl e, tr1) \<Rightarrow> (Inl e, self, tr1)
      | (Inr _, tr1) \<Rightarrow>
          (case mext env (HandlerCall (query_members_val env) (view_id \<noteq> last_view_id self)) tr1 of
             (Inl e, tr2) \<Rightarrow> (Inl e, self, tr2)
           | (Inr _, tr2) \<Rightarrow>
               (case view_change_loop (last_primary_id self) (query_members_val env) None of
                  (prim, force_reconnect) \<Rightarrow>
                    (let self1 = self\<lparr>last_view_id := view_id, last_primary_id := prim\<rparr>
                     in if target_not_primary self1 = Some True \<or> force_reconnect
                        then (case session self1 of
                                Some sess \<Rightarrow>
                                  (case mext env (SessionClose (sess_id sess)) tr2 of
                                     (Inl e, tr3) \<Rightarrow> (Inl e, self1, tr3)
                                   | (Inr _, tr3) \<Rightarrow> (Inr (), self1\<lparr>session := None\<rparr>, tr3))
                              | None \<Rightarrow> (Inr (), self1, tr2))
                        else (Inr (), self1, tr2)))))"

text \<open>
  \<open>ensure_connected\<close>.  \<open>not self.last_connect_attempt\<close> holds for the initial 0.
  \<open>env\<close> is the environment of the method itself, \<open>envs i\<close> that of round \<open>i\<close> of
  \<open>connect_to_primary\<close>.
\<close>

definition ensure_connected ::
  "nat \<Rightarrow> menv \<Rightarrow> (nat \<Rightarrow> menv) \<Rightarrow> 'h MonitoredCluster \<Rightarrow> mcall list
     \<Rightarrow> ((exc + xsession option) \<times> 'h MonitoredCluster \<times> mcall list) option" where
  "ensure_connected fuel env envs self tr =
     (if session self = None
         \<and> (last_connect_attempt self = 0
              \<or> time_check env - last_connect_attempt self > k_connect_retry_interval)
      then
        (case MonitoredCluster_connect_to_primary fuel 0 envs
                (self\<lparr>last_connect_attempt := time_stamp env, session := None\<rparr>) tr of
           None \<Rightarrow> None
         | Some (Inl e, self1, tr1) \<Rightarrow> Some (Inl e, self1, tr1)
         | Some (Inr _, self1, tr1) \<Rightarrow>
             (if session self1 \<noteq> None
              then (case on_view_change env None self1 tr1 of
                      (Inl e, self2, tr2) \<Rightarrow> Some (Inl e, self2, tr2)
                    | (Inr _, self2, tr2) \<Rightarrow> Some (Inr (session self2), self2, tr2))
              else Some (Inr (session self1), self1, tr1)))
      else Some (Inr (session self), self, tr))"

section \<open>Sample inputs\<close>

text \<open>
  A cluster of two pods in an empty world, and an environment in which every external
  call succeeds; the examples below change them field by field.
\<close>

definition sample_cluster :: InnoDBCluster where
  "sample_cluster =
     \<lparr>cluster_namespace = ''ns'', cluster_name = ''mycluster'', cluster_deleting = False,
      initDB = None, routers = None\<rparr>"

text \<open>The same cluster, to be initialised from a clone donor.\<close>

definition sample_cluster_clone :: InnoDBCluster where
  "sample_cluster_clone =
     sample_cluster\<lparr>initDB := Some \<lparr>clone = Some \<lparr>clone_uri = ''donor:3306''\<rparr>\<rparr>\<rparr>"

definition sample_pod0 :: MySQLPod where
  "sample_pod0 =
     \<lparr>pod_name = ''mycluster-0'', pod_index = 0, pod_endpoint = ''mycluster-0:3306'',
      pod_xendpoint = ''mycluster-0:33060'', pod_deleting = False,
      pod_membership_info = None\<rparr>"

definition sample_pod1 :: MySQLPod where
  "sample_pod1 =
     \<lparr>pod_name = ''mycluster-1'', pod_index = 1, pod_endpoint = ''mycluster-1:3306'',
      pod_xendpoint = ''mycluster-1:33060'', pod_deleting = False,
      pod_membership_info = None\<rparr>"

definition sample_diag :: "diag_status \<Rightarrow> ClusterDiagnostic" where
  "sample_diag st =
     \<lparr>diag_status = st, online_members = [], primary = None, quorum_candidates = []\<rparr>"

definition sample_world :: world where
  "sample_world =
     \<lparr>ephemeral = (\<lambda>k. None), member_finalizers = {},
      cluster_status = \<lparr>cs_status = None, cs_onlineInstances = None, cs_lastProbeTime = None\<rparr>,
      create_time = None, cluster_info = None, membership_status = (\<lambda>p. None),
      readiness_gate = (\<lambda>p. None), dba = None, dba_cluster = None, trace = []\<rparr>"

definition sample_env :: env where
  "sample_env =
     \<lparr>raises = (\<lambda>c. None),
      diagnose_cluster_val = sample_diag DIAG_CLUSTER_INITIALIZING,
      diagnose_candidate_val = DIAG_CANDIDATE_JOINABLE,
      query_membership_info_val = (''uuid-0'', ''PRIMARY'', ''ONLINE'', ''view:1'', ''8.0.21''),
      get_pods_val = [sample_pod0, sample_pod1],
      isotime_val = ''2020-10-01T10:00:00Z'',
      now_val = ''2020-10-01 10:00:00'',
      router_account_val = (''mysqlrouter'', ''secret''),
      backup_account_val = (''mysqlbackup'', ''secret''),
      SHERR_DBA_BADARG_INSTANCE_NOT_ONLINE = 51314,
      SHERR_DBA_BADARG_INSTANCE_ALREADY_IN_GR = 51308,
      SHERR_DBA_MEMBER_METADATA_MISSING = 51104,
      ER_OPTION_PREVENTS_STATEMENT = 1290,
      ER_NONEXISTING_GRANT = 1141,
      retry_max_tries = 3,
      retry_is_retriable = (\<lambda>c. 2000 \<le> c \<and> c \<le> 2999),
      retry_giveup = (''Could not complete the operation'', Some 10)\<rparr>"

definition sample_envs :: "nat \<Rightarrow> env" where
  "sample_envs i = sample_env"

definition sample_menv :: menv where
  "sample_menv =
     \<lparr>m_raises = (\<lambda>c. None),
      m_get_pods_val = [sample_pod0, sample_pod1],
      get_session_val = (\<lambda>pass endpoint. \<lparr>sess_id = pass, sess_uri = endpoint\<rparr>),
      jump_to_primary_val = (\<lambda>pass sess. Some sess),
      parse_uri_val = (\<lambda>uri. (''mycluster-0'', ''33060'')),
      query_members_val = [],
      time_check = 1601546400,
      time_stamp = 1601546400,
      CR_MIN_ERROR = 2000,
      CR_MAX_ERROR = 2999\<rparr>"

definition sample_menvs :: "nat \<Rightarrow> menv" where
  "sample_menvs i = sample_menv"

text \<open>
  Environments in which something fails: the seed is not yet in a cluster
  (\<open>get_cluster\<close> raises); in addition the \<open>create_cluster\<close> primitive raises "already
  in group"; the graceful removal of pod 1 through pod 0 finds the PRIMARY read-only; no
  member of the cluster accepts a connection.
\<close>

definition sample_env_fresh :: env where
  "sample_env_fresh =
     sample_env\<lparr>raises := (raises sample_env)
        (DbaGetCluster ''mycluster-0:3306'' \<mapsto> MysqlshError 51102 ''not a cluster member'')\<rparr>"

definition sample_env_create_fails :: env where
  "sample_env_create_fails =
     sample_env_fresh\<lparr>raises := (raises sample_env_fresh)
        (DbaCreateCluster ''mycluster-0:3306'' ''mycluster'' (create_options True)
           \<mapsto> MysqlshError 51308 ''already in a group'')\<rparr>"

definition sample_env_read_only :: env where
  "sample_env_read_only =
     sample_env\<lparr>raises := (raises sample_env)
        (ClusterRemoveInstance ''mycluster-0:3306'' ''mycluster-1:3306'' []
           \<mapsto> MysqlshError 1290 ''super_read_only is ON'')\<rparr>"

definition sample_menv_down :: menv where
  "sample_menv_down =
     sample_menv\<lparr>m_raises := (\<lambda>c. Some (MysqlshError 2003 ''connection refused''))\<rparr>"

definition sample_menvs_down :: "nat \<Rightarrow> menv" where
  "sample_menvs_down i = sample_menv_down"

text \<open>The external calls issued between two worlds.\<close>

definition new_calls :: "world \<Rightarrow> world \<Rightarrow> call list" where
  "new_calls w w' = drop (length (trace w)) (trace w')"

text \<open>Whether an external call is a call of the \<open>create_cluster\<close> primitive.\<close>

definition is_create_cluster_call :: "call \<Rightarrow> bool" where
  "is_create_cluster_call c = (case c of DbaCreateCluster ep n opts \<Rightarrow> True | _ \<Rightarrow> False)"

section \<open>Summaries of programs\<close>

text \<open>
  Three summaries of a program: every external call it issues satisfies \<open>P\<close>; it
  leaves the component \<open>f\<close> of the world as it found it; every exception it raises
  satisfies \<open>P\<close>.
\<close>

definition calls_in :: "(call \<Rightarrow> bool) \<Rightarrow> 'a prog \<Rightarrow> bool" where
  "calls_in P m \<longleftrightarrow> (\<forall>w. \<exists>evs. trace (snd (m w)) = trace w @ evs \<and> list_all P evs)"

definition preserves :: "(world \<Rightarrow> 'b) \<Rightarrow> 'a prog \<Rightarrow> bool" where
  "preserves f m \<longleftrightarrow> (\<forall>w. f (snd (m w)) = f w)"

definition raises_only :: "(exc \<Rightarrow> bool) \<Rightarrow> 'a prog \<Rightarrow> bool" where
  "raises_only P m \<longleftrightarrow> (\<forall>w e w'. m w = (Inl e, w') \<longrightarrow> P e)"

section \<open>Properties\<close>

subsection \<open>Unfolding the combinators\<close>

lemmas prog_defs = bind_prog_def then_prog_def try_prog_def return_prog_def raise_prog_def
  modify_prog_def ext_def

subsection \<open>The calls a program issues\<close>

lemma calls_inI:
  "(\<And>w. \<exists>evs. trace (snd (m w)) = trace w @ evs \<and> list_all P evs) \<Longrightarrow> calls_in P m"
  by (simp add: calls_in_def)

lemma calls_inD:
  "calls_in P m \<Longrightarrow> \<exists>evs. trace (snd (m w)) = trace w @ evs \<and> list_all P evs"
  by (simp add: calls_in_def)

lemma calls_in_return: "calls_in P (return_prog x)"
  by (simp add: calls_in_def return_prog_def)

lemma calls_in_raise: "calls_in P (raise_prog e)"
  by (simp add: calls_in_def raise_prog_def)

lemma calls_in_modify: "(\<And>w. trace (f w) = trace w) \<Longrightarrow> calls_in P (modify_prog f)"
  by (simp add: calls_in_def modify_prog_def)

lemma calls_in_ext: "P c \<Longrightarrow> calls_in P (ext env c)"
  by (auto simp: calls_in_def ext_def split: option.splits)

lemma calls_in_bind:
  assumes "calls_in P m" and "\<And>x. calls_in P (f x)"
  shows "calls_in P (bind_prog m f)"
proof (rule calls_inI)
  fix w
  obtain r w1 where m: "m w = (r, w1)" by force
  from calls_inD[OF assms(1), of w] m obtain evs1
    where e1: "trace w1 = trace w @ evs1" "list_all P evs1" by auto
  show "\<exists>evs. trace (snd (bind_prog m f w)) = trace w @ evs \<and> list_all P evs"
  proof (cases r)
    case (Inl e)
    with m e1 show ?thesis by (simp add: bind_prog_def)
  next
    case (Inr x)
    from calls_inD[OF assms(2), of x w1] obtain evs2
      where e2: "trace (snd (f x w1)) = trace w1 @ evs2" "list_all P evs2" by auto
    with Inr m e1 show ?thesis by (simp add: bind_prog_def)
  qed
qed

lemma calls_in_then: "calls_in P m \<Longrightarrow> calls_in P n \<Longrightarrow> calls_in P (then_prog m n)"
  by (simp add: then_prog_def calls_in_bind)

lemma calls_in_try:
  assumes "calls_in P m" and "\<And>e. calls_in P (h e)"
  shows "calls_in P (try_prog m h)"
proof (rule calls_inI)
  fix w
  obtain r w1 where m: "m w = (r, w1)" by force
  from calls_inD[OF assms(1), of w] m obtain evs1
    where e1: "trace w1 = trace w @ evs1" "list_all P evs1" by auto
  show "\<exists>evs. trace (snd (try_prog m h w)) = trace w @ evs \<and> list_all P evs"
  proof (cases r)
    case (Inr x)
    with m e1 show ?thesis by (simp add: try_prog_def)
  next
    case (Inl e)
    from calls_inD[OF assms(2), of e w1] obtain evs2
      where e2: "trace (snd (h e w1)) = trace w1 @ evs2" "list_all P evs2" by auto
    with Inl m e1 show ?thesis by (simp add: try_prog_def)
  qed
qed

lemma calls_in_closing:
  assumes "calls_in P body" and "P c"
  shows "calls_in P (\<lambda>w. case body w of (r, w') \<Rightarrow> (r, w'\<lparr>trace := trace w' @ [c]\<rparr>))"
proof (rule calls_inI)
  fix w
  from calls_inD[OF assms(1), of w] obtain evs
    where "trace (snd (body w)) = trace w @ evs" "list_all P evs" by auto
  with assms(2) show "\<exists>evs. trace (snd (case body w of (r, w') \<Rightarrow> (r, w'\<lparr>trace := trace w' @ [c]\<rparr>)))
      = trace w @ evs \<and> list_all P evs"
    by (auto split: prod.splits)
qed

lemma calls_in_with_connect_dba:
  "calls_in P body \<Longrightarrow> P (ConnectDba ep None) \<Longrightarrow> P (CloseDba ep)
     \<Longrightarrow> calls_in P (with_connect_dba env ep body)"
  unfolding with_connect_dba_def
  by (intro calls_in_then calls_in_ext calls_in_closing)

lemma calls_in_on_dba_cluster: "(\<And>h. P (mk h)) \<Longrightarrow> calls_in P (on_dba_cluster env mk)"
  by (auto simp: calls_in_def on_dba_cluster_def ext_def split: option.splits)

lemmas calls_in_rules = calls_in_return calls_in_raise calls_in_ext calls_in_bind calls_in_then
  calls_in_try calls_in_on_dba_cluster calls_in_with_connect_dba

lemma calls_in_log_mysql_info:
  "(\<And>s a. P (RunSql ep s a)) \<Longrightarrow> calls_in P (log_mysql_info env ep)"
  unfolding log_mysql_info_def by (intro calls_in_rules) auto

lemma calls_in_add_member_finalizer: "calls_in P (add_member_finalizer pod)"
  unfolding add_member_finalizer_def by (rule calls_in_modify) simp

lemma calls_in_remove_member_finalizer: "calls_in P (remove_member_finalizer pod)"
  unfolding remove_member_finalizer_def by (rule calls_in_modify) simp

lemma calls_in_probe_member_status:
  "P (QueryMembershipInfo ep) \<Longrightarrow> calls_in P (probe_member_status env pod ep joined)"
  unfolding probe_member_status_def update_membership_status_def update_member_readiness_gate_def
  by (auto intro!: calls_in_rules calls_in_modify split: prod.splits)

lemma calls_in_post_create_actions:
  "(\<And>c. (\<forall>e n opts. c \<noteq> DbaCreateCluster e n opts) \<Longrightarrow> P c)
     \<Longrightarrow> calls_in P (post_create_actions env cluster ep h)"
  unfolding post_create_actions_def
  by (auto intro!: calls_in_rules split: prod.splits option.splits exc.splits)

subsection \<open>What a program leaves alone\<close>

lemma preservesI: "(\<And>w. f (snd (m w)) = f w) \<Longrightarrow> preserves f m"
  by (simp add: preserves_def)

lemma preservesD: "preserves f m \<Longrightarrow> f (snd (m w)) = f w"
  by (simp add: preserves_def)

lemma preservesD': "preserves f m \<Longrightarrow> m w = (r, w') \<Longrightarrow> f w' = f w"
  by (auto simp: preserves_def dest: spec[of _ w])

lemma preserves_return: "preserves f (return_prog x)"
  by (simp add: preserves_def return_prog_def)

lemma preserves_raise: "preserves f (raise_prog e)"
  by (simp add: preserves_def raise_prog_def)

lemma preserves_modify: "(\<And>w. f (g w) = f w) \<Longrightarrow> preserves f (modify_prog g)"
  by (simp add: preserves_def modify_prog_def)

lemma preserves_ext: "(\<And>w t. f (w\<lparr>trace := t\<rparr>) = f w) \<Longrightarrow> preserves f (ext env c)"
  by (auto simp: preserves_def ext_def split: option.splits)

lemma preserves_bind:
  assumes "preserves g m" and "\<And>x. preserves g (f x)"
  shows "preserves g (bind_prog m f)"
proof (rule preservesI)
  fix w
  obtain r w1 where m: "m w = (r, w1)" by force
  with preservesD'[OF assms(1) m] preservesD[OF assms(2)]
  show "g (snd (bind_prog m f w)) = g w"
    by (cases r) (simp_all add: bind_prog_def)
qed

lemma preserves_then: "preserves g m \<Longrightarrow> preserves g n \<Longrightarrow> preserves g (then_prog m n)"
  by (simp add: then_prog_def preserves_bind)

lemma preserves_try:
  assumes "preserves g m" and "\<And>e. preserves g (h e)"
  shows "preserves g (try_prog m h)"
proof (rule preservesI)
  fix w
  obtain r w1 where m: "m w = (r, w1)" by force
  with preservesD'[OF assms(1) m] preservesD[OF assms(2)]
  show "g (snd (try_prog m h w)) = g w"
    by (cases r) (simp_all add: try_prog_def)
qed

lemma preserves_on_dba_cluster:
  "(\<And>w t. f (w\<lparr>trace := t\<rparr>) = f w) \<Longrightarrow> preserves f (on_dba_cluster env mk)"
  by (auto simp: preserves_def on_dba_cluster_def ext_def split: option.splits)

lemmas preserves_rules = preserves_return preserves_raise preserves_ext preserves_bind
  preserves_then preserves_try preserves_on_dba_cluster

lemma preserves_log_mysql_info:
  "(\<And>w t. f (w\<lparr>trace := t\<rparr>) = f w) \<Longrightarrow> preserves f (log_mysql_info env ep)"
  unfolding log_mysql_info_def by (intro preserves_rules) auto

subsection \<open>The calls of \<open>create_cluster\<close>\<close>

lemma bind_then_return:
  "bind_prog (then_prog (modify_prog g) (return_prog b)) f = then_prog (modify_prog g) (f b)"
  by (rule ext) (simp add: prog_defs)

lemma bind_raise: "bind_prog (raise_prog e) f = raise_prog e"
  by (rule ext) (simp add: prog_defs)

lemma create_options_eq:
  "create_options b =
     [(''gtidSetIsComplete'', OptBool b), (''startOnBoot'', OptBool False),
      (''memberSslMode'', OptStr ''REQUIRED''), (''exitStateAction'', OptStr ''ABORT_SERVER'')]"
  by (simp add: create_options_def common_gr_options_def)

lemma calls_in_create_cluster_primitive:
  "P (DbaCreateCluster (pod_endpoint seed_pod) (cluster_name cluster) opts)
     \<Longrightarrow> (\<And>s a. P (RunSql (pod_endpoint seed_pod) s a))
     \<Longrightarrow> calls_in P (create_cluster_primitive env cluster seed_pod opts)"
  unfolding create_cluster_primitive_def
  by (auto intro!: calls_in_rules calls_in_modify calls_in_remove_member_finalizer
        split: exc.splits)

lemma calls_in_get_cluster:
  "P (DbaGetCluster ep) \<Longrightarrow>
   calls_in P (\<lambda>w. case ext env (DbaGetCluster ep) w of
          (Inr _, w') \<Rightarrow> (Inr (), w'\<lparr>dba_cluster := Some ep\<rparr>)
        | (Inl e, w') \<Rightarrow> (Inr (), w'\<lparr>dba_cluster := None\<rparr>))"
  by (auto simp: calls_in_def ext_def split: option.splits)

lemma calls_in_cond:
  "calls_in P a \<Longrightarrow> calls_in P b \<Longrightarrow> calls_in P (\<lambda>w. if c w then a w else b w)"
  by (simp add: calls_in_def)

lemma calls_in_skip: "calls_in P (\<lambda>w. (Inr x, w))"
  by (simp add: calls_in_def)

lemma calls_in_create_cluster_body:
  assumes "P (DbaCreateCluster (pod_endpoint seed_pod) (cluster_name cluster) (create_options b))"
    and "\<And>c. (\<forall>e n opts. c \<noteq> DbaCreateCluster e n opts) \<Longrightarrow> P c"
  shows "calls_in P (create_cluster_body env cluster seed_pod b)"
  unfolding create_cluster_body_def
  apply (intro calls_in_then calls_in_get_cluster calls_in_add_member_finalizer
      calls_in_probe_member_status calls_in_on_dba_cluster calls_in_post_create_actions
      calls_in_cond calls_in_skip calls_in_log_mysql_info calls_in_create_cluster_primitive)
         apply (simp_all add: assms)
  done

lemma calls_in_create_cluster:
  assumes "\<And>b. (b \<longleftrightarrow> initDB cluster = None) \<Longrightarrow>
      (initDB cluster = None \<or> (\<exists>init c. initDB cluster = Some init \<and> clone init = Some c)) \<Longrightarrow>
      P (DbaCreateCluster (pod_endpoint seed_pod) (cluster_name cluster) (create_options b))"
    and "\<And>c. (\<forall>e n opts. c \<noteq> DbaCreateCluster e n opts) \<Longrightarrow> P c"
  shows "calls_in P (create_cluster env cluster seed_pod)"
proof (cases "initDB cluster")
  case None
  have "calls_in P (create_cluster_body env cluster seed_pod True)"
    by (rule calls_in_create_cluster_body) (simp_all add: assms None)
  with None show ?thesis
    unfolding create_cluster_def create_cluster_data_source_def update_cluster_info_def
    by (simp add: bind_then_return calls_in_then calls_in_modify calls_in_with_connect_dba
          assms(2))
next
  case (Some init)
  show ?thesis
  proof (cases "clone init")
    case None
    with Some show ?thesis
      unfolding create_cluster_def create_cluster_data_source_def
      by (simp add: bind_raise calls_in_raise)
  next
    case (Some c)
    have "calls_in P (create_cluster_body env cluster seed_pod False)"
      by (rule calls_in_create_cluster_body)
         (simp_all add: assms Some \<open>initDB cluster = Some init\<close>)
    with Some \<open>initDB cluster = Some init\<close> show ?thesis
      unfolding create_cluster_def create_cluster_data_source_def update_cluster_info_def
      by (simp add: bind_then_return calls_in_then calls_in_modify calls_in_with_connect_dba
            assms(2))
  qed
qed

lemma new_calls_of:
  "calls_in P m \<Longrightarrow> m w = (r, w') \<Longrightarrow> c \<in> set (new_calls w w') \<Longrightarrow> P c"
  by (auto simp: calls_in_def new_calls_def list_all_iff dest!: spec[of _ w])

subsection \<open>A failing \<open>create_cluster\<close> primitive\<close>

lemma create_cluster_primitive_fails:
  assumes "raises env (DbaCreateCluster (pod_endpoint seed_pod) (cluster_name cluster) opts)
             = Some (MysqlshError c m)"
  shows "\<exists>e w'. create_cluster_primitive env cluster seed_pod opts w = (Inl e, w')
        \<and> member_finalizers w' = member_finalizers w - {pod_name seed_pod}
        \<and> (e = MysqlshError c m
           \<or> e = TemporaryError
                 ''GR already running while creating cluster but could not stop it'' (Some 3)
           \<or> raises env (RunSql (pod_endpoint seed_pod) ''STOP GROUP_REPLICATION'' []) = Some e)"
  using assms
  by (auto simp: create_cluster_primitive_def prog_defs remove_member_finalizer_def
        split: option.splits exc.splits)

lemma then_prog_apply:
  "then_prog m n w = (case m w of (Inl e, w') \<Rightarrow> (Inl e, w') | (Inr x, w') \<Rightarrow> n w')"
  by (simp add: then_prog_def bind_prog_def)

lemma calls_in_trace:
  "calls_in P m \<Longrightarrow> m w = (r, w') \<Longrightarrow> \<exists>evs. trace w' = trace w @ evs \<and> list_all P evs"
  by (auto simp: calls_in_def dest!: spec[of _ w])

lemma create_cluster_body_fails:
  assumes rs: "raises env (DbaCreateCluster (pod_endpoint seed_pod) (cluster_name cluster)
                 (create_options b)) = Some (MysqlshError c m)"
    and run: "create_cluster_body env cluster seed_pod b w = (r, w')"
    and called: "DbaCreateCluster ep n opts \<in> set (new_calls w w')"
  shows "pod_name seed_pod \<notin> member_finalizers w'
       \<and> (\<exists>e. r = Inl e \<and> (e = MysqlshError c m
           \<or> e = TemporaryError
                 ''GR already running while creating cluster but could not stop it'' (Some 3)
           \<or> raises env (RunSql (pod_endpoint seed_pod) ''STOP GROUP_REPLICATION'' []) = Some e))"
proof -
  let ?ep = "pod_endpoint seed_pod"
  let ?NC = "\<lambda>c. \<forall>e n opts. c \<noteq> DbaCreateCluster e n opts"
  define REST where "REST = then_prog (probe_member_status env seed_pod ?ep True)
     (then_prog (on_dba_cluster env ClusterStatus) (post_create_actions env cluster ?ep ?ep))"
  have rest: "calls_in ?NC REST"
    unfolding REST_def
    by (intro calls_in_then calls_in_probe_member_status calls_in_on_dba_cluster
          calls_in_post_create_actions) simp_all
  have log: "calls_in ?NC (log_mysql_info env ?ep)"
    by (rule calls_in_log_mysql_info) simp
  have logp: "preserves member_finalizers (log_mysql_info env ?ep)"
    by (rule preserves_log_mysql_info) simp
  show ?thesis
  proof (cases "raises env (DbaGetCluster ?ep)")
    case None
    let ?w4 = "w\<lparr>trace := trace w @ [DbaGetCluster ?ep], dba_cluster := Some ?ep,
                 member_finalizers := insert (pod_name seed_pod) (member_finalizers w)\<rparr>"
    from None run have "REST ?w4 = (r, w')"
      by (simp add: create_cluster_body_def REST_def[symmetric] then_prog_apply ext_def
            add_member_finalizer_def modify_prog_def)
    from calls_in_trace[OF rest this] obtain evs
      where "trace w' = trace ?w4 @ evs" "list_all ?NC evs" by blast
    with called have False
      by (auto simp: new_calls_def list_all_iff)
    then show ?thesis ..
  next
    case (Some e0)
    let ?w4 = "w\<lparr>trace := trace w @ [DbaGetCluster ?ep], dba_cluster := None,
                 member_finalizers := insert (pod_name seed_pod) (member_finalizers w)\<rparr>"
    obtain r5 w5 where l: "log_mysql_info env ?ep ?w4 = (r5, w5)" by force
    from calls_in_trace[OF log l] obtain evs5
      where t5: "trace w5 = trace ?w4 @ evs5" "list_all ?NC evs5" by blast
    from preservesD'[OF logp l] have f5: "member_finalizers w5 = member_finalizers ?w4" .
    show ?thesis
    proof (cases r5)
      case (Inl e5)
      with Some run l have "w' = w5"
        by (simp add: create_cluster_body_def then_prog_apply ext_def
            add_member_finalizer_def modify_prog_def)
      with t5 called have False
        by (auto simp: new_calls_def list_all_iff)
      then show ?thesis ..
    next
      case (Inr u)
      from create_cluster_primitive_fails[OF rs, of w5] obtain e6 w6
        where p: "create_cluster_primitive env cluster seed_pod (create_options b) w5 = (Inl e6, w6)"
          and f6: "member_finalizers w6 = member_finalizers w5 - {pod_name seed_pod}"
          and e6: "e6 = MysqlshError c m
           \<or> e6 = TemporaryError
                 ''GR already running while creating cluster but could not stop it'' (Some 3)
           \<or> raises env (RunSql ?ep ''STOP GROUP_REPLICATION'' []) = Some e6"
        by blast
      from Some run l Inr p have "r = Inl e6" "w' = w6"
        by (simp_all add: create_cluster_body_def then_prog_apply ext_def
            add_member_finalizer_def modify_prog_def)
      with f6 e6 show ?thesis by simp
    qed
  qed
qed

subsection \<open>When the \<open>create_cluster\<close> primitive is called\<close>

lemma filter_no_create_cluster_call:
  "list_all (\<lambda>c. \<forall>e n opts. c \<noteq> DbaCreateCluster e n opts) evs
     \<Longrightarrow> filter is_create_cluster_call evs = []"
  by (induction evs) (auto simp: is_create_cluster_call_def split: call.splits)

lemma log_mysql_info_result:
  "fst (log_mysql_info env ep w)
     = (case raises env (RunSql ep ''select @@server_id, @@server_uuid, @@report_host'' []) of
          Some e \<Rightarrow> Inl e | None \<Rightarrow> Inr ())"
  by (simp add: log_mysql_info_def prog_defs split: option.splits)

lemma create_cluster_primitive_trace:
  "\<exists>evs. trace (snd (create_cluster_primitive env cluster seed_pod opts w))
       = trace w @ DbaCreateCluster (pod_endpoint seed_pod) (cluster_name cluster) opts # evs
     \<and> list_all (\<lambda>c. \<forall>e n opts. c \<noteq> DbaCreateCluster e n opts) evs"
  by (auto simp: create_cluster_primitive_def prog_defs remove_member_finalizer_def
        split: option.splits exc.splits)

lemma create_cluster_body_primitive_calls:
  assumes run: "create_cluster_body env cluster seed_pod b w = (r, w')"
  shows "filter is_create_cluster_call (new_calls w w')
       = (if raises env (DbaGetCluster (pod_endpoint seed_pod)) \<noteq> None
             \<and> raises env (RunSql (pod_endpoint seed_pod)
                   ''select @@server_id, @@server_uuid, @@report_host'' []) = None
          then [DbaCreateCluster (pod_endpoint seed_pod) (cluster_name cluster) (create_options b)]
          else [])"
proof -
  let ?ep = "pod_endpoint seed_pod"
  let ?NC = "\<lambda>c. \<forall>e n opts. c \<noteq> DbaCreateCluster e n opts"
  let ?C = "DbaCreateCluster ?ep (cluster_name cluster) (create_options b)"
  define REST where "REST = then_prog (probe_member_status env seed_pod ?ep True)
     (then_prog (on_dba_cluster env ClusterStatus) (post_create_actions env cluster ?ep ?ep))"
  have rest: "calls_in ?NC REST"
    unfolding REST_def
    by (intro calls_in_then calls_in_probe_member_status calls_in_on_dba_cluster
          calls_in_post_create_actions) simp_all
  have log: "calls_in ?NC (log_mysql_info env ?ep)"
    by (rule calls_in_log_mysql_info) simp
  have g: "\<not> is_create_cluster_call (DbaGetCluster ?ep)"
    by (simp add: is_create_cluster_call_def)
  have c: "is_create_cluster_call ?C"
    by (simp add: is_create_cluster_call_def)
  show ?thesis
  proof (cases "raises env (DbaGetCluster ?ep)")
    case None
    let ?w4 = "w\<lparr>trace := trace w @ [DbaGetCluster ?ep], dba_cluster := Some ?ep,
                 member_finalizers := insert (pod_name seed_pod) (member_finalizers w)\<rparr>"
    from None run have "REST ?w4 = (r, w')"
      by (simp add: create_cluster_body_def REST_def[symmetric] then_prog_apply ext_def
            add_member_finalizer_def modify_prog_def)
    from calls_in_trace[OF rest this] obtain evs
      where "trace w' = trace ?w4 @ evs" "list_all ?NC evs" by blast
    with None g show ?thesis
      by (simp add: new_calls_def filter_no_create_cluster_call)
  next
    case (Some e0)
    let ?w4 = "w\<lparr>trace := trace w @ [DbaGetCluster ?ep], dba_cluster := None,
                 member_finalizers := insert (pod_name seed_pod) (member_finalizers w)\<rparr>"
    obtain r5 w5 where l: "log_mysql_info env ?ep ?w4 = (r5, w5)" by force
    from calls_in_trace[OF log l] obtain evs5
      where t5: "trace w5 = trace ?w4 @ evs5" "list_all ?NC evs5" by blast
    from log_mysql_info_result[of env ?ep ?w4] l
    have r5: "r5 = (case raises env (RunSql ?ep
                 ''select @@server_id, @@server_uuid, @@report_host'' []) of
                 Some e \<Rightarrow> Inl e | None \<Rightarrow> Inr ())"
      by simp
    show ?thesis
    proof (cases r5)
      case (Inl e5)
      with Some run l have "w' = w5"
        by (simp add: create_cluster_body_def then_prog_apply ext_def
            add_member_finalizer_def modify_prog_def)
      moreover from Inl r5 have "raises env (RunSql ?ep
                 ''select @@server_id, @@server_uuid, @@report_host'' []) \<noteq> None"
        by (auto split: option.splits)
      ultimately show ?thesis
        using t5 g by (simp add: new_calls_def filter_no_create_cluster_call)
    next
      case (Inr u)
      with r5 have ok: "raises env (RunSql ?ep
                 ''select @@server_id, @@server_uuid, @@report_host'' []) = None"
        by (auto split: option.splits)
      obtain r6 w6
        where p: "create_cluster_primitive env cluster seed_pod (create_options b) w5 = (r6, w6)"
        by force
      from create_cluster_primitive_trace[of env cluster seed_pod "create_options b" w5] p
      obtain evs6 where t6: "trace w6 = trace w5 @ ?C # evs6" "list_all ?NC evs6"
        by auto
      show ?thesis
      proof (cases r6)
        case (Inl e6)
        with Some run l \<open>r5 = Inr u\<close> p have "w' = w6"
          by (simp add: create_cluster_body_def then_prog_apply ext_def
              add_member_finalizer_def modify_prog_def)
        with t5 t6 g c ok Some show ?thesis
          by (simp add: new_calls_def filter_no_create_cluster_call)
      next
        case (Inr u6)
        with Some run l \<open>r5 = Inr u\<close> p have "REST w6 = (r, w')"
          by (simp add: create_cluster_body_def REST_def[symmetric] then_prog_apply ext_def
              add_member_finalizer_def modify_prog_def)
        from calls_in_trace[OF rest this] obtain evs
          where "trace w' = trace w6 @ evs" "list_all ?NC evs" by blast
        with t5 t6 g c ok Some show ?thesis
          by (simp add: new_calls_def filter_no_create_cluster_call)
      qed
    qed
  qed
qed

lemma with_connect_dba_calls:
  assumes "with_connect_dba env ep body w = (r, w')"
  shows "(raises env (ConnectDba ep None) \<noteq> None
            \<and> new_calls w w' = [ConnectDba ep None])
       \<or> (raises env (ConnectDba ep None) = None
            \<and> (\<exists>r1 w1. body (w\<lparr>trace := trace w @ [ConnectDba ep None]\<rparr>) = (r1, w1)
                  \<and> trace w' = trace w1 @ [CloseDba ep]))"
  using assms
  by (auto simp: with_connect_dba_def then_prog_apply ext_def new_calls_def
        split: option.splits prod.splits)

lemma with_connect_dba_create_cluster_body:
  assumes run: "with_connect_dba env (pod_endpoint seed_pod)
                  (create_cluster_body env cluster seed_pod b) w = (r, w')"
  shows "filter is_create_cluster_call (drop (length (trace w)) (trace w'))
       = (if raises env (ConnectDba (pod_endpoint seed_pod) None) = None
             \<and> raises env (DbaGetCluster (pod_endpoint seed_pod)) \<noteq> None
             \<and> raises env (RunSql (pod_endpoint seed_pod)
                   ''select @@server_id, @@server_uuid, @@report_host'' []) = None
          then [DbaCreateCluster (pod_endpoint seed_pod) (cluster_name cluster) (create_options b)]
          else [])"
proof -
  let ?ep = "pod_endpoint seed_pod"
  let ?w0 = "w\<lparr>trace := trace w @ [ConnectDba ?ep None]\<rparr>"
  from with_connect_dba_calls[OF run]
  consider (fail) "raises env (ConnectDba ?ep None) \<noteq> None"
      "new_calls w w' = [ConnectDba ?ep None]"
    | (ok) r1 w1 where "raises env (ConnectDba ?ep None) = None"
      "create_cluster_body env cluster seed_pod b ?w0 = (r1, w1)"
      "trace w' = trace w1 @ [CloseDba ?ep]"
    by blast
  then show ?thesis
  proof cases
    case fail
    then show ?thesis
      by (simp add: new_calls_def is_create_cluster_call_def)
  next
    case ok
    have body: "calls_in (\<lambda>c. True) (create_cluster_body env cluster seed_pod b)"
      by (rule calls_in_create_cluster_body) simp_all
    from calls_in_trace[OF body ok(2)] obtain evs where t1: "trace w1 = trace ?w0 @ evs"
      by blast
    from create_cluster_body_primitive_calls[OF ok(2)] t1
    have "filter is_create_cluster_call evs
       = (if raises env (DbaGetCluster ?ep) \<noteq> None
             \<and> raises env (RunSql ?ep
                   ''select @@server_id, @@server_uuid, @@report_host'' []) = None
          then [DbaCreateCluster ?ep (cluster_name cluster) (create_options b)]
          else [])"
      by (simp add: new_calls_def)
    with ok(1,3) t1 show ?thesis
      by (simp add: is_create_cluster_call_def)
  qed
qed

subsection \<open>Finalizers while an instance is removed\<close>

lemma try_connect_loop_finalizers:
  "member_finalizers (snd (try_connect_loop env all_pods pods last_exc offline_pods w))
     = member_finalizers w"
proof (induction pods arbitrary: last_exc offline_pods w)
  case Nil
  then show ?case by (simp split: option.splits)
next
  case (Cons pod pods)
  show ?case
    by (simp add: Cons.IH prog_defs split: option.splits exc.splits)
qed

lemma preserves_connect_to_cluster: "preserves member_finalizers (connect_to_cluster env)"
  by (simp add: preserves_def connect_to_cluster_def try_connect_loop_finalizers)

lemma preserves_remove_instance_peer:
  "preserves member_finalizers (remove_instance_peer env cluster)"
  unfolding remove_instance_peer_def
  by (auto intro!: preserves_rules preserves_connect_to_cluster split: exc.splits)

lemma preserves_remove_instance_graceful:
  "preserves member_finalizers (remove_instance_graceful env pod peer)"
  unfolding remove_instance_graceful_def
  by (auto intro!: preserves_rules split: exc.splits)

lemma preserves_remove_instance_forced:
  "preserves member_finalizers (remove_instance_forced env cluster pod)"
  unfolding remove_instance_forced_def
  by (auto intro!: preserves_rules split: exc.splits)

subsection \<open>Probe, repair and monitor\<close>

lemma repair_cluster_None:
  "repair_cluster env envs pod diagnostic w = (Inr v, w') \<Longrightarrow> v = PyNone"
  by (auto simp: repair_cluster_def return_prog_def raise_prog_def then_prog_def bind_prog_def
      split: if_splits list.splits prod.splits sum.splits)

lemma connect_to_primary_last_attempt:
  "MonitoredCluster_connect_to_primary fuel i envs self tr = Some (r, self', tr')
     \<Longrightarrow> last_connect_attempt self' = last_connect_attempt self"
proof (induction fuel arbitrary: i tr)
  case 0
  then show ?case by simp
next
  case (Suc fuel)
  obtain fr tr1 where fp: "find_primary (envs i) tr = (fr, tr1)" by force
  show ?case
  proof (cases fr)
    case (Inl e)
    with Suc.prems fp show ?thesis by simp
  next
    case (Inr found)
    obtain so is_primary where found: "found = (so, is_primary)" by force
    show ?thesis
    proof (cases so)
      case None
      with Suc.prems fp Inr found show ?thesis by auto
    next
      case (Some sess)
      obtain sr tr2 where ss: "session_setup (envs i) sess tr1 = (sr, tr2)" by force
      show ?thesis
      proof (cases sr)
        case (Inr u)
        with Suc.prems fp \<open>fr = Inr found\<close> found Some ss show ?thesis by auto
      next
        case (Inl e)
        show ?thesis
        proof (cases "\<exists>c m. e = MysqlshError c m
                 \<and> CR_MAX_ERROR (envs i) \<ge> c \<and> c \<ge> CR_MIN_ERROR (envs i)")
          case True
          with Suc.prems fp \<open>fr = Inr found\<close> found Some ss Inl
          have "MonitoredCluster_connect_to_primary fuel (Suc i) envs self tr2
                  = Some (r, self', tr')"
            by auto
          then show ?thesis by (rule Suc.IH)
        next
          case False
          with Suc.prems fp \<open>fr = Inr found\<close> found Some ss Inl show ?thesis
            by (cases e) (auto split: if_splits)
        qed
      qed
    qed
  qed
qed

lemma probe_status_eq:
  "probe_status env w =
     (case raises env DiagnoseCluster of
        Some e \<Rightarrow> (Inl e, w\<lparr>trace := trace w @ [DiagnoseCluster]\<rparr>)
      | None \<Rightarrow> (Inr (diagnose_cluster_val env),
                 w\<lparr>trace := trace w @ [DiagnoseCluster],
                   cluster_status :=
                     \<lparr>cs_status = Some (diag_status (diagnose_cluster_val env)),
                      cs_onlineInstances = Some (length (online_members (diagnose_cluster_val env))),
                      cs_lastProbeTime = Some (isotime_val env)\<rparr>\<rparr>))"
  by (simp add: probe_status_def then_prog_def bind_prog_def ext_def publish_status_def
        modify_prog_def return_prog_def split: option.splits)

lemma on_view_change_last_attempt:
  "last_connect_attempt (fst (snd (on_view_change env view_id self tr)))
     = last_connect_attempt self"
proof -
  obtain prim force_reconnect where v:
    "view_change_loop (last_primary_id self) (query_members_val env) None = (prim, force_reconnect)"
    by force
  show ?thesis
    unfolding on_view_change_def Let_def v
    by (simp split: prod.split sum.split option.split)
qed

lemma monitor_cluster_found_iff:
  "monitor_cluster_found cs cluster \<longleftrightarrow>
     (\<exists>c \<in> set cs. cluster_name (mc_cluster c) = cluster_name cluster
        \<and> cluster_namespace (mc_cluster c) = cluster_namespace cluster)"
  by (induction cs) auto

lemma raises_only_return: "raises_only P (return_prog x)"
  by (simp add: raises_only_def return_prog_def)

lemma raises_only_raise: "P e \<Longrightarrow> raises_only P (raise_prog e)"
  by (simp add: raises_only_def raise_prog_def)

lemma raises_only_modify: "raises_only P (modify_prog f)"
  by (simp add: raises_only_def modify_prog_def)

lemma raises_only_bind:
  "raises_only P m \<Longrightarrow> (\<And>x. raises_only P (f x)) \<Longrightarrow> raises_only P (bind_prog m f)"
  unfolding raises_only_def bind_prog_def
  by (auto split: prod.splits sum.splits)

lemma raises_only_then:
  "raises_only P m \<Longrightarrow> raises_only P n \<Longrightarrow> raises_only P (then_prog m n)"
  by (simp add: then_prog_def raises_only_bind)

lemma raises_only_try: "(\<And>e. raises_only P (h e)) \<Longrightarrow> raises_only P (try_prog m h)"
  unfolding raises_only_def try_prog_def
  by (auto split: prod.splits sum.splits)

lemma raises_only_remove_instance_peer:
  "cluster_deleting cluster
     \<Longrightarrow> raises_only (\<lambda>e. \<forall>c m. e \<noteq> MysqlshError c m) (remove_instance_peer env cluster)"
  unfolding remove_instance_peer_def
  by (rule raises_only_try) (auto intro: raises_only_return raises_only_raise split: exc.splits)

lemma raises_only_remove_instance_graceful:
  "raises_only (\<lambda>e. \<forall>c m. e \<noteq> MysqlshError c m) (remove_instance_graceful env pod peer)"
  unfolding remove_instance_graceful_def
  by (rule raises_only_try) (auto intro: raises_only_return raises_only_raise split: exc.splits)

lemma raises_only_remove_instance_forced:
  "cluster_deleting cluster
     \<Longrightarrow> raises_only (\<lambda>e. \<forall>c m. e \<noteq> MysqlshError c m) (remove_instance_forced env cluster pod)"
  unfolding remove_instance_forced_def
  by (rule raises_only_try) (auto intro: raises_only_return raises_only_raise split: exc.splits)

lemma raises_only_remove_instance:
  "cluster_deleting cluster
     \<Longrightarrow> raises_only (\<lambda>e. \<forall>c m. e \<noteq> MysqlshError c m) (remove_instance env cluster pod force)"
  unfolding remove_instance_def remove_member_finalizer_def
  by (auto intro!: raises_only_then raises_only_bind raises_only_return raises_only_modify
        raises_only_remove_instance_peer raises_only_remove_instance_graceful
        raises_only_remove_instance_forced split: option.splits)

lemmas sample_defs = sample_cluster_def sample_pod0_def sample_pod1_def sample_diag_def
  sample_world_def sample_env_def sample_envs_def sample_env_fresh_def
  sample_env_create_fails_def sample_env_read_only_def

section \<open>The claims\<close>

subsection \<open>Uncertain diagnoses in the repair dispatch\<close>

text \<open>
  C1, as the code has it.  For a diagnostic whose status is tagged UNCERTAIN,
  \<open>repair_cluster\<close> makes no external call and leaves the world as it is; it returns
  \<open>None\<close> for ONLINE_UNCERTAIN, raises \<open>kopf.TemporaryError\<close> (no delay given) for
  OFFLINE_UNCERTAIN and NO_QUORUM_UNCERTAIN, and raises \<open>kopf.PermanentError\<close> for
  SPLIT_BRAIN_UNCERTAIN.  So it never raises the permanent error for the first three,
  and always raises it for the fourth.
\<close>

theorem repair_cluster_uncertain:
  assumes "is_uncertain (diag_status diagnostic)"
  shows "repair_cluster env envs pod diagnostic w =
           (if diag_status diagnostic = DIAG_CLUSTER_ONLINE_UNCERTAIN then (Inr PyNone, w)
            else if diag_status diagnostic = DIAG_CLUSTER_SPLIT_BRAIN_UNCERTAIN
            then (Inl (PermanentError
                   ''Unable to recover from current cluster state. User action required. state=SPLIT_BRAIN_UNCERTAIN''),
                  w)
            else (Inl (TemporaryError
                    (''Unreachable members found while in state ''
                       @ status_name (diag_status diagnostic) @ '', waiting...'') None), w))
       \<and> (diag_status diagnostic \<noteq> DIAG_CLUSTER_SPLIT_BRAIN_UNCERTAIN \<longrightarrow>
            (\<forall>msg. fst (repair_cluster env envs pod diagnostic w) \<noteq> Inl (PermanentError msg)))"
  using assms
  by (cases "diag_status diagnostic")
     (simp_all add: repair_cluster_def return_prog_def raise_prog_def)

text \<open>An OFFLINE_UNCERTAIN diagnostic: retry later, nothing touched.\<close>

theorem repair_cluster_uncertain_witness:
  "is_uncertain (diag_status (sample_diag DIAG_CLUSTER_OFFLINE_UNCERTAIN))
   \<and> repair_cluster sample_env sample_envs sample_pod0
        (sample_diag DIAG_CLUSTER_OFFLINE_UNCERTAIN) sample_world
     = (Inl (TemporaryError
          ''Unreachable members found while in state OFFLINE_UNCERTAIN, waiting...'' None),
        sample_world)"
  using repair_cluster_uncertain
      [of "sample_diag DIAG_CLUSTER_OFFLINE_UNCERTAIN" sample_env sample_envs sample_pod0
          sample_world]
  by (simp add: sample_diag_def)

text \<open>
  A SPLIT_BRAIN_UNCERTAIN diagnostic is tagged UNCERTAIN and \<open>repair_cluster\<close> raises
  the permanent error on it.
\<close>

theorem repair_cluster_uncertain_counterexample:
  "is_uncertain (diag_status (sample_diag DIAG_CLUSTER_SPLIT_BRAIN_UNCERTAIN))
   \<and> fst (repair_cluster sample_env sample_envs sample_pod0
            (sample_diag DIAG_CLUSTER_SPLIT_BRAIN_UNCERTAIN) sample_world)
     = Inl (PermanentError
         ''Unable to recover from current cluster state. User action required. state=SPLIT_BRAIN_UNCERTAIN'')"
  by (simp add: repair_cluster_def sample_diag_def raise_prog_def)

subsection \<open>The cluster mutex\<close>




subsection \<open>A pod created while the cluster is initializing\<close>

text \<open>
  C3, as the code has it.  Let the probe of \<open>on_pod_created\<close> return a diagnostic
  INITIALIZING.  For a pod whose index is not 0 the method raises
  \<open>kopf.TemporaryError\<close> with delay 15 and has issued no external call but the probe.
  For the pod of index 0 it first tests the cluster's create time: when one is set it
  raises \<open>kopf.PermanentError\<close>, again with no call but the probe; when none is set it runs
  \<open>create_cluster\<close> on that pod through the retry loop, passes on what the loop
  raises, and when the loop returns it sets the create time to the current time and
  returns.
\<close>

theorem on_pod_created_initializing:
  assumes "raises env DiagnoseCluster = None"
    and "diag_status (diagnose_cluster_val env) = DIAG_CLUSTER_INITIALIZING"
  shows "(pod_index pod \<noteq> 0 \<longrightarrow>
            on_pod_created env envs envs' cluster pod w
              = (Inl (TemporaryError ''Cluster is not yet ready'' (Some 15)),
                 snd (probe_status env w)))
       \<and> (pod_index pod = 0 \<and> create_time w \<noteq> None \<longrightarrow>
            on_pod_created env envs envs' cluster pod w
              = (Inl (PermanentError
                   ''Internal inconsistency: cluster marked as initialized, but create requested again''),
                 snd (probe_status env w)))
       \<and> (pod_index pod = 0 \<and> create_time w = None \<longrightarrow>
            on_pod_created env envs envs' cluster pod w
              = (case RetryLoop_call env (\<lambda>i. create_cluster (envs i) cluster pod)
                        (snd (probe_status env w)) of
                   (Inl e, w') \<Rightarrow> (Inl e, w')
                 | (Inr u, w') \<Rightarrow> (Inr (), w'\<lparr>create_time := Some (now_val env)\<rparr>)))
       \<and> new_calls w (snd (probe_status env w)) = [DiagnoseCluster]"
  using assms
  by (auto simp: on_pod_created_def probe_status_eq bind_prog_def then_prog_def raise_prog_def
        set_create_time_def modify_prog_def new_calls_def split: prod.splits sum.splits)

text \<open>Pod 1 arrives while the cluster is initializing: retry in 15 seconds.\<close>

theorem on_pod_created_initializing_witness:
  "raises sample_env DiagnoseCluster = None
   \<and> diag_status (diagnose_cluster_val sample_env) = DIAG_CLUSTER_INITIALIZING
   \<and> on_pod_created sample_env sample_envs sample_envs sample_cluster sample_pod1 sample_world
       = (Inl (TemporaryError ''Cluster is not yet ready'' (Some 15)),
          snd (probe_status sample_env sample_world))
   \<and> new_calls sample_world (snd (probe_status sample_env sample_world)) = [DiagnoseCluster]"
  using on_pod_created_initializing
      [of sample_env sample_pod1 sample_envs sample_envs sample_cluster sample_world]
  by (simp add: sample_env_def sample_diag_def sample_pod1_def)

text \<open>
  Pod 0 arrives, the probe says INITIALIZING, and the cluster already has a create
  time: the method raises the permanent error, the probe is its only external call
  (\<open>create_cluster\<close> would connect to the pod), and the create time is the old one.
\<close>

theorem on_pod_created_initializing_counterexample:
  "diag_status (diagnose_cluster_val sample_env) = DIAG_CLUSTER_INITIALIZING
   \<and> pod_index sample_pod0 = 0
   \<and> fst (on_pod_created sample_env sample_envs sample_envs sample_cluster sample_pod0
            (sample_world\<lparr>create_time := Some ''2020-09-30 10:00:00''\<rparr>))
       = Inl (PermanentError
           ''Internal inconsistency: cluster marked as initialized, but create requested again'')
   \<and> new_calls (sample_world\<lparr>create_time := Some ''2020-09-30 10:00:00''\<rparr>)
        (snd (on_pod_created sample_env sample_envs sample_envs sample_cluster sample_pod0
               (sample_world\<lparr>create_time := Some ''2020-09-30 10:00:00''\<rparr>)))
       = [DiagnoseCluster]
   \<and> create_time
        (snd (on_pod_created sample_env sample_envs sample_envs sample_cluster sample_pod0
               (sample_world\<lparr>create_time := Some ''2020-09-30 10:00:00''\<rparr>)))
       = Some ''2020-09-30 10:00:00''"
  by (simp add: on_pod_created_def probe_status_eq sample_defs new_calls_def
        bind_prog_def then_prog_def)

subsection \<open>The member finalizer in \<open>remove_instance\<close>\<close>

text \<open>
  C4, as the code has it.  \<open>remove_instance\<close> removes the member finalizer of the pod
  exactly on its normal return: when it returns, the finalizers are those it found
  without the pod's; when it leaves by a raised error (the retry-later of a PRIMARY
  that is still read-only, a failed connection, a failed forced removal while the
  cluster is not being deleted) the finalizers are as it found them.  While the cluster
  is being deleted the method swallows the admin errors: what it raises then is never a
  \<open>mysqlsh.Error\<close>, but it can still be the retry-later error or an error of another
  kind, and the finalizer then stays.
\<close>

theorem remove_instance_finalizer:
  assumes "remove_instance env cluster pod force w = (r, w')"
  shows "(\<forall>u. r = Inr u \<longrightarrow> member_finalizers w' = member_finalizers w - {pod_name pod})
       \<and> (\<forall>e. r = Inl e \<longrightarrow> member_finalizers w' = member_finalizers w)
       \<and> (cluster_deleting cluster \<longrightarrow> (\<forall>c m. r \<noteq> Inl (MysqlshError c m)))"
proof -
  have del: "\<forall>c m. r \<noteq> Inl (MysqlshError c m)" if "cluster_deleting cluster"
    using raises_only_remove_instance[OF that, of env pod force] assms
    by (auto simp: raises_only_def)
  define first where "first =
       (if length (get_pods_val env) > 1
        then bind_prog (remove_instance_peer env cluster)
               (\<lambda>peer_pod. case peer_pod of
                  Some peer \<Rightarrow>
                    bind_prog
                      (if \<not> force then remove_instance_graceful env pod peer
                       else return_prog False)
                      (\<lambda>removed.
                         if \<not> removed then remove_instance_forced env cluster pod
                         else return_prog ())
                | None \<Rightarrow> return_prog ())
        else return_prog ())"
  have "preserves member_finalizers first"
    unfolding first_def
    by (auto intro!: preserves_rules preserves_remove_instance_peer
          preserves_remove_instance_graceful preserves_remove_instance_forced
          split: option.splits)
  moreover obtain r1 w1 where f: "first w = (r1, w1)" by force
  ultimately have 1: "member_finalizers w1 = member_finalizers w"
    by (rule preservesD')
  have eq: "remove_instance env cluster pod force = then_prog first (remove_member_finalizer pod)"
    unfolding remove_instance_def first_def ..
  show ?thesis
  proof (cases r1)
    case (Inl e)
    with assms f have "r = Inl e" "w' = w1"
      by (simp_all add: eq then_prog_apply)
    with 1 del show ?thesis by simp
  next
    case (Inr x)
    with assms f have "r = Inr ()"
      "w' = w1\<lparr>member_finalizers := member_finalizers w1 - {pod_name pod}\<rparr>"
      by (auto simp: eq then_prog_apply remove_member_finalizer_def modify_prog_def)
    with 1 show ?thesis by simp
  qed
qed

text \<open>Pod 1 is removed through pod 0 and every call succeeds: its finalizer goes.\<close>

theorem remove_instance_finalizer_witness:
  "remove_instance sample_env sample_cluster sample_pod1 False
       (sample_world\<lparr>member_finalizers := {''mycluster-0'', ''mycluster-1''}\<rparr>)
     = (Inr (), snd (remove_instance sample_env sample_cluster sample_pod1 False
                      (sample_world\<lparr>member_finalizers := {''mycluster-0'', ''mycluster-1''}\<rparr>)))
   \<and> member_finalizers
        (snd (remove_instance sample_env sample_cluster sample_pod1 False
               (sample_world\<lparr>member_finalizers := {''mycluster-0'', ''mycluster-1''}\<rparr>)))
     = {''mycluster-0''}"
proof -
  have r: "fst (remove_instance sample_env sample_cluster sample_pod1 False
       (sample_world\<lparr>member_finalizers := {''mycluster-0'', ''mycluster-1''}\<rparr>)) = Inr ()"
    by (simp add: remove_instance_def remove_instance_peer_def remove_instance_graceful_def
        remove_member_finalizer_def
        connect_to_cluster_def on_dba_cluster_def sample_defs prog_defs)
  then have e: "remove_instance sample_env sample_cluster sample_pod1 False
       (sample_world\<lparr>member_finalizers := {''mycluster-0'', ''mycluster-1''}\<rparr>)
     = (Inr (), snd (remove_instance sample_env sample_cluster sample_pod1 False
                      (sample_world\<lparr>member_finalizers := {''mycluster-0'', ''mycluster-1''}\<rparr>)))"
    by (metis prod.collapse)
  from remove_instance_finalizer[OF e] e show ?thesis
    by (auto simp: sample_pod1_def sample_world_def)
qed

text \<open>
  The cluster is being deleted and the graceful removal of pod 1 finds the PRIMARY
  still read-only: \<open>remove_instance\<close> raises the retry-later error and pod 1 keeps its
  member finalizer.
\<close>

theorem remove_instance_finalizer_counterexample:
  "cluster_deleting (sample_cluster\<lparr>cluster_deleting := True\<rparr>)
   \<and> fst (remove_instance sample_env_read_only (sample_cluster\<lparr>cluster_deleting := True\<rparr>)
            sample_pod1 False (sample_world\<lparr>member_finalizers := {''mycluster-1''}\<rparr>))
       = Inl (TemporaryError ''mycluster-0 is a PRIMARY but super_read_only is ON'' (Some 5))
   \<and> pod_name sample_pod1
       \<in> member_finalizers
           (snd (remove_instance sample_env_read_only
                   (sample_cluster\<lparr>cluster_deleting := True\<rparr>) sample_pod1 False
                   (sample_world\<lparr>member_finalizers := {''mycluster-1''}\<rparr>)))"
  by (simp add: remove_instance_def remove_instance_peer_def remove_instance_graceful_def
        connect_to_cluster_def on_dba_cluster_def sample_defs prog_defs)

subsection \<open>The options of the \<open>create_cluster\<close> primitive\<close>

text \<open>
  C5, as the code has it.  An execution of \<open>create_cluster\<close> calls the
  \<open>create_cluster\<close> primitive of the admin client at most once, and it calls it exactly
  when the cluster spec has no \<open>initDB\<close> or one with a clone donor, the connection to
  the seed pod opens, \<open>get_cluster\<close> on it fails (there is no cluster yet) and the first
  query of \<open>log_mysql_info\<close> succeeds.  It then calls it on the seed pod, with the name
  of the cluster and with exactly the options \<open>gtidSetIsComplete\<close> (true when the spec
  has no \<open>initDB\<close>, false when it has one, which is then one with a clone donor),
  \<open>startOnBoot = False\<close>, \<open>memberSslMode = "REQUIRED"\<close> and
  \<open>exitStateAction = "ABORT_SERVER"\<close>.  In every other execution, one that finds the
  cluster already there among them, the primitive is not called and no options are
  passed.
\<close>

theorem create_cluster_calls_primitive:
  "filter is_create_cluster_call
      (new_calls w (snd (create_cluster env cluster seed_pod w)))
     = (if (initDB cluster = None
             \<or> (\<exists>init c. initDB cluster = Some init \<and> clone init = Some c))
           \<and> raises env (ConnectDba (pod_endpoint seed_pod) None) = None
           \<and> raises env (DbaGetCluster (pod_endpoint seed_pod)) \<noteq> None
           \<and> raises env (RunSql (pod_endpoint seed_pod)
                 ''select @@server_id, @@server_uuid, @@report_host'' []) = None
        then [DbaCreateCluster (pod_endpoint seed_pod) (cluster_name cluster)
                [(''gtidSetIsComplete'', OptBool (initDB cluster = None)),
                 (''startOnBoot'', OptBool False),
                 (''memberSslMode'', OptStr ''REQUIRED''),
                 (''exitStateAction'', OptStr ''ABORT_SERVER'')]]
        else [])"
proof (cases "initDB cluster")
  case None
  let ?w1 = "w\<lparr>cluster_info := Some \<lparr>initialDataSource = ''blank'',
                 incrementalRecoveryAllowed = True\<rparr>\<rparr>"
  have "create_cluster env cluster seed_pod w
      = with_connect_dba env (pod_endpoint seed_pod)
          (create_cluster_body env cluster seed_pod True) ?w1"
    using None
    by (simp add: create_cluster_def create_cluster_data_source_def update_cluster_info_def
          prog_defs)
  from with_connect_dba_create_cluster_body[where env=env and seed_pod=seed_pod and cluster=cluster
      and b=True and w="?w1", OF prod.collapse[symmetric]]
    this None
  show ?thesis
    by (simp add: new_calls_def create_options_eq)
next
  case (Some init)
  show ?thesis
  proof (cases "clone init")
    case None
    with Some show ?thesis
      by (simp add: create_cluster_def create_cluster_data_source_def prog_defs new_calls_def)
  next
    case (Some c)
    let ?w1 = "w\<lparr>cluster_info := Some \<lparr>initialDataSource = ''clone='' @ clone_uri c,
                 incrementalRecoveryAllowed = False\<rparr>\<rparr>"
    have "create_cluster env cluster seed_pod w
        = with_connect_dba env (pod_endpoint seed_pod)
            (create_cluster_body env cluster seed_pod False) ?w1"
      using Some \<open>initDB cluster = Some init\<close>
      by (simp add: create_cluster_def create_cluster_data_source_def update_cluster_info_def
            prog_defs)
    from with_connect_dba_create_cluster_body[where env=env and seed_pod=seed_pod and cluster=cluster
        and b=False and w="?w1", OF prod.collapse[symmetric]]
      this Some \<open>initDB cluster = Some init\<close>
    show ?thesis
      by (simp add: new_calls_def create_options_eq)
  qed
qed

text \<open>
  Pod 0 as the seed, every call but \<open>get_cluster\<close> succeeding: a cluster created from
  scratch passes \<open>gtidSetIsComplete = True\<close>, one created from a clone donor passes
  \<open>gtidSetIsComplete = False\<close>; when \<open>get_cluster\<close> succeeds the primitive is not
  called.
\<close>

theorem create_cluster_calls_primitive_witness:
  "filter is_create_cluster_call
      (new_calls sample_world
         (snd (create_cluster sample_env_fresh sample_cluster sample_pod0 sample_world)))
     = [DbaCreateCluster ''mycluster-0:3306'' ''mycluster''
          [(''gtidSetIsComplete'', OptBool True), (''startOnBoot'', OptBool False),
           (''memberSslMode'', OptStr ''REQUIRED''),
           (''exitStateAction'', OptStr ''ABORT_SERVER'')]]
   \<and> filter is_create_cluster_call
      (new_calls sample_world
         (snd (create_cluster sample_env_fresh sample_cluster_clone sample_pod0 sample_world)))
     = [DbaCreateCluster ''mycluster-0:3306'' ''mycluster''
          [(''gtidSetIsComplete'', OptBool False), (''startOnBoot'', OptBool False),
           (''memberSslMode'', OptStr ''REQUIRED''),
           (''exitStateAction'', OptStr ''ABORT_SERVER'')]]
   \<and> filter is_create_cluster_call
      (new_calls sample_world
         (snd (create_cluster sample_env sample_cluster sample_pod0 sample_world)))
     = []"
  using create_cluster_calls_primitive[of sample_world sample_env_fresh sample_cluster sample_pod0]
    create_cluster_calls_primitive[of sample_world sample_env_fresh sample_cluster_clone
      sample_pod0]
    create_cluster_calls_primitive[of sample_world sample_env sample_cluster sample_pod0]
  by (simp add: sample_defs sample_cluster_clone_def)

text \<open>
  The seed already holds the cluster, say from an earlier incomplete attempt:
  \<open>get_cluster\<close> succeeds, \<open>create_cluster\<close> returns normally, and the
  \<open>create_cluster\<close> primitive is not among its calls, so no options are passed.
\<close>

theorem create_cluster_calls_primitive_counterexample:
  "initDB sample_cluster = None
   \<and> fst (create_cluster sample_env sample_cluster sample_pod0 sample_world) = Inr ()
   \<and> new_calls sample_world
        (snd (create_cluster sample_env sample_cluster sample_pod0 sample_world))
     = [ConnectDba ''mycluster-0:3306'' None,
        DbaGetCluster ''mycluster-0:3306'',
        QueryMembershipInfo ''mycluster-0:3306'',
        ClusterStatus ''mycluster-0:3306'',
        RunSql ''mycluster-0:3306'' (''show grants for ?@'' @ [CHR 0x27] @ ''%'' @ [CHR 0x27])
          [''mysqlrouter''],
        ClusterSetupRouterAccount ''mycluster-0:3306'' ''mysqlrouter''
          [(''password'', OptStr ''secret''), (''update'', OptBool True)],
        SetupBackupAccount ''mycluster-0:3306'' ''mysqlbackup'' ''secret'',
        CloseDba ''mycluster-0:3306'']"
  by (simp add: create_cluster_def create_cluster_data_source_def
      with_connect_dba_def create_cluster_body_def log_mysql_info_def
      create_cluster_primitive_def add_member_finalizer_def remove_member_finalizer_def
      update_cluster_info_def probe_member_status_def update_membership_status_def
      update_member_readiness_gate_def on_dba_cluster_def post_create_actions_def
      create_options_eq new_calls_def sample_defs prog_defs)

subsection \<open>When the cluster status is probed again\<close>

text \<open>
  C6, as the code has it.  \<open>probe_status_if_needed\<close> runs the cluster probe exactly
  when the last probe time and the changed pod's last transition time are both recorded
  and the former is earlier, or the last recorded status is UNKNOWN or one of the four
  UNCERTAIN statuses; it then returns the status of the new diagnostic (or passes on the
  error of the probe).  Otherwise it returns the recorded status and leaves the world
  as it is, so no probe is made.
\<close>

theorem probe_status_if_needed_refresh:
  "probe_status_if_needed env changed_pod w =
     (if (\<exists>pt tt. cs_lastProbeTime (cluster_status w) = Some pt \<and> pt \<noteq> []
             \<and> get_lastTransitionTime changed_pod = Some tt \<and> tt \<noteq> [] \<and> pt < tt)
         \<or> (\<exists>s. cs_status (cluster_status w) = Some s
                \<and> (s = DIAG_CLUSTER_UNKNOWN \<or> is_uncertain s))
      then (case probe_status env w of
              (Inl e, w') \<Rightarrow> (Inl e, w')
            | (Inr diag, w') \<Rightarrow> (Inr (Some (diag_status diag)), w'))
      else (Inr (cs_status (cluster_status w)), w))"
proof -
  have u: "\<And>s. s \<in> set unreachable_states \<longleftrightarrow> s = DIAG_CLUSTER_UNKNOWN \<or> is_uncertain s"
    subgoal for s by (cases s) (simp_all add: unreachable_states_def)
    done
  show ?thesis
    by (cases "cs_lastProbeTime (cluster_status w)"; cases "get_lastTransitionTime changed_pod";
        cases "cs_status (cluster_status w)")
       (auto simp: probe_status_if_needed_def Let_def u bind_prog_def return_prog_def
          split: prod.splits sum.splits)
qed

text \<open>
  The last status is ONLINE and the last probe was at 09:00: a pod that changed at 09:30
  causes a probe, a pod that changed at 08:00 does not.
\<close>

theorem probe_status_if_needed_refresh_witness:
  "probe_status_if_needed sample_env
        (sample_pod0\<lparr>pod_membership_info :=
            Some \<lparr>mi_memberId = None, mi_role = None,
                  mi_lastTransitionTime = Some ''2020-10-01T09:30:00Z''\<rparr>\<rparr>)
        (sample_world\<lparr>cluster_status :=
            \<lparr>cs_status = Some DIAG_CLUSTER_ONLINE, cs_onlineInstances = Some 2,
             cs_lastProbeTime = Some ''2020-10-01T09:00:00Z''\<rparr>\<rparr>)
     = (Inr (Some DIAG_CLUSTER_INITIALIZING),
        sample_world\<lparr>cluster_status :=
            \<lparr>cs_status = Some DIAG_CLUSTER_INITIALIZING, cs_onlineInstances = Some 0,
             cs_lastProbeTime = Some ''2020-10-01T10:00:00Z''\<rparr>,
          trace := [DiagnoseCluster]\<rparr>)
   \<and> probe_status_if_needed sample_env
        (sample_pod0\<lparr>pod_membership_info :=
            Some \<lparr>mi_memberId = None, mi_role = None,
                  mi_lastTransitionTime = Some ''2020-10-01T08:00:00Z''\<rparr>\<rparr>)
        (sample_world\<lparr>cluster_status :=
            \<lparr>cs_status = Some DIAG_CLUSTER_ONLINE, cs_onlineInstances = Some 2,
             cs_lastProbeTime = Some ''2020-10-01T09:00:00Z''\<rparr>\<rparr>)
     = (Inr (Some DIAG_CLUSTER_ONLINE),
        sample_world\<lparr>cluster_status :=
            \<lparr>cs_status = Some DIAG_CLUSTER_ONLINE, cs_onlineInstances = Some 2,
             cs_lastProbeTime = Some ''2020-10-01T09:00:00Z''\<rparr>\<rparr>)"
  using probe_status_if_needed_refresh
      [of sample_env "sample_pod0\<lparr>pod_membership_info :=
            Some \<lparr>mi_memberId = None, mi_role = None,
                  mi_lastTransitionTime = Some ''2020-10-01T09:30:00Z''\<rparr>\<rparr>"
        "sample_world\<lparr>cluster_status :=
            \<lparr>cs_status = Some DIAG_CLUSTER_ONLINE, cs_onlineInstances = Some 2,
             cs_lastProbeTime = Some ''2020-10-01T09:00:00Z''\<rparr>\<rparr>"]
    probe_status_if_needed_refresh
      [of sample_env "sample_pod0\<lparr>pod_membership_info :=
            Some \<lparr>mi_memberId = None, mi_role = None,
                  mi_lastTransitionTime = Some ''2020-10-01T08:00:00Z''\<rparr>\<rparr>"
        "sample_world\<lparr>cluster_status :=
            \<lparr>cs_status = Some DIAG_CLUSTER_ONLINE, cs_onlineInstances = Some 2,
             cs_lastProbeTime = Some ''2020-10-01T09:00:00Z''\<rparr>\<rparr>"]
  by (simp add: probe_status_eq sample_env_def sample_world_def sample_pod0_def sample_diag_def
        get_lastTransitionTime_def)

text \<open>
  The last status is UNKNOWN, which is not tagged UNCERTAIN, and the last probe (09:00)
  is not older than the pod's last transition (08:00): the probe runs all the same.
\<close>

theorem probe_status_if_needed_refresh_counterexample:
  "\<not> is_uncertain DIAG_CLUSTER_UNKNOWN
   \<and> \<not> (''2020-10-01T09:00:00Z'' < ''2020-10-01T08:00:00Z'')
   \<and> probe_status_if_needed sample_env
        (sample_pod0\<lparr>pod_membership_info :=
            Some \<lparr>mi_memberId = None, mi_role = None,
                  mi_lastTransitionTime = Some ''2020-10-01T08:00:00Z''\<rparr>\<rparr>)
        (sample_world\<lparr>cluster_status :=
            \<lparr>cs_status = Some DIAG_CLUSTER_UNKNOWN, cs_onlineInstances = Some 0,
             cs_lastProbeTime = Some ''2020-10-01T09:00:00Z''\<rparr>\<rparr>)
     = (Inr (Some DIAG_CLUSTER_INITIALIZING),
        sample_world\<lparr>cluster_status :=
            \<lparr>cs_status = Some DIAG_CLUSTER_INITIALIZING, cs_onlineInstances = Some 0,
             cs_lastProbeTime = Some ''2020-10-01T10:00:00Z''\<rparr>,
          trace := [DiagnoseCluster]\<rparr>)"
  by (simp add: probe_status_if_needed_def probe_status_eq sample_env_def sample_world_def
        sample_pod0_def sample_diag_def unreachable_states_def get_lastTransitionTime_def
        bind_prog_def return_prog_def)

subsection \<open>What \<open>repair_cluster\<close> returns\<close>

text \<open>
  C7.  Whenever \<open>repair_cluster\<close> returns, whatever the diagnostic, it returns
  \<open>None\<close>, which is falsy.  Consequently the \<open>else\<close> block of \<open>on_pod_deleted\<close>
  ends exactly as \<open>repair_cluster\<close> ends, by its error or normally: the \<open>raise\<close>
  behind the truth test of the returned value is never reached.
\<close>

theorem repair_cluster_returns_None:
  "(\<forall>v w'. repair_cluster env envs pod diagnostic w = (Inr v, w') \<longrightarrow> v = PyNone \<and> \<not> truthy v)
   \<and> on_pod_deleted_repair env envs pod diagnostic w
       = (case repair_cluster env envs pod diagnostic w of
            (Inl e, w') \<Rightarrow> (Inl e, w')
          | (Inr v, w') \<Rightarrow> (Inr (), w'))"
proof -
  obtain r1 w1 where r: "repair_cluster env envs pod diagnostic w = (r1, w1)" by force
  show ?thesis
  proof (cases r1)
    case (Inl e)
    with r show ?thesis by (simp add: on_pod_deleted_repair_def bind_prog_def)
  next
    case (Inr v)
    with r repair_cluster_None[of env envs pod diagnostic w v w1] show ?thesis
      by (simp add: on_pod_deleted_repair_def bind_prog_def return_prog_def)
  qed
qed

text \<open>An OFFLINE cluster seen from pod 1: nothing to do, \<open>None\<close> is returned.\<close>

theorem repair_cluster_returns_None_witness:
  "repair_cluster sample_env sample_envs sample_pod1 (sample_diag DIAG_CLUSTER_OFFLINE)
       sample_world = (Inr PyNone, sample_world)
   \<and> \<not> truthy PyNone
   \<and> on_pod_deleted_repair sample_env sample_envs sample_pod1 (sample_diag DIAG_CLUSTER_OFFLINE)
       sample_world = (Inr (), sample_world)"
proof -
  have r: "repair_cluster sample_env sample_envs sample_pod1 (sample_diag DIAG_CLUSTER_OFFLINE)
       sample_world = (Inr PyNone, sample_world)"
    by (simp add: repair_cluster_def sample_diag_def sample_pod1_def return_prog_def)
  with repair_cluster_returns_None
      [of sample_env sample_envs sample_pod1 "sample_diag DIAG_CLUSTER_OFFLINE" sample_world]
  show ?thesis by simp
qed

subsection \<open>Throttled connection attempts of the monitor\<close>

text \<open>
  C8.  The retry interval is 10 seconds.  A call of \<open>ensure_connected\<close> on a monitored
  cluster that has a session, or that has a recorded connection attempt (a time other
  than the initial 0) at most 10 seconds before the clock reading of the call, starts no
  connection attempt: it returns the session at once, with the record and the calls
  made unchanged.  So, for a cluster without a session, an attempt starts only when no
  attempt is recorded or more than 10 seconds have passed.  An attempt records the
  clock reading taken when it starts, whatever its outcome; and when it leaves the
  cluster without a session, a call whose clock reading is at most 10 seconds after the
  recorded one starts no attempt.  Clock readings are seconds since 1970, read as real
  numbers; the reading an attempt records is taken to be other than 0.
\<close>

theorem ensure_connected_throttled:
  "k_connect_retry_interval = 10
   \<and> (session self \<noteq> None
        \<or> (last_connect_attempt self \<noteq> 0
             \<and> time_check env - last_connect_attempt self \<le> k_connect_retry_interval)
      \<longrightarrow> ensure_connected fuel env envs self tr = Some (Inr (session self), self, tr))
   \<and> (session self = None
        \<and> (last_connect_attempt self = 0
             \<or> time_check env - last_connect_attempt self > k_connect_retry_interval)
        \<and> ensure_connected fuel env envs self tr = Some (r, self', tr')
      \<longrightarrow> last_connect_attempt self' = time_stamp env
         \<and> (session self' = None \<and> time_stamp env \<noteq> 0
              \<and> time_check env2 - time_stamp env \<le> k_connect_retry_interval
            \<longrightarrow> ensure_connected fuel2 env2 envs2 self' tr' = Some (Inr None, self', tr')))"
proof -
  have skip: "ensure_connected fuel env envs self tr = Some (Inr (session self), self, tr)"
    if "session self \<noteq> None
      \<or> (last_connect_attempt self \<noteq> 0
           \<and> time_check env - last_connect_attempt self \<le> k_connect_retry_interval)"
    for fuel env envs and self :: "'a MonitoredCluster" and tr
    using that by (auto simp: ensure_connected_def)
  have a: "last_connect_attempt self' = time_stamp env"
    if g: "session self = None"
      "last_connect_attempt self = 0
         \<or> time_check env - last_connect_attempt self > k_connect_retry_interval"
      and run: "ensure_connected fuel env envs self tr = Some (r, self', tr')"
  proof -
    let ?self0 = "self\<lparr>last_connect_attempt := time_stamp env, session := None\<rparr>"
    from g have e: "ensure_connected fuel env envs self tr =
        (case MonitoredCluster_connect_to_primary fuel 0 envs ?self0 tr of
           None \<Rightarrow> None
         | Some (Inl e, self1, tr1) \<Rightarrow> Some (Inl e, self1, tr1)
         | Some (Inr _, self1, tr1) \<Rightarrow>
             (if session self1 \<noteq> None
              then (case on_view_change env None self1 tr1 of
                      (Inl e, self2, tr2) \<Rightarrow> Some (Inl e, self2, tr2)
                    | (Inr _, self2, tr2) \<Rightarrow> Some (Inr (session self2), self2, tr2))
              else Some (Inr (session self1), self1, tr1)))"
      unfolding ensure_connected_def by simp
    from run e obtain r1 self1 tr1
      where c: "MonitoredCluster_connect_to_primary fuel 0 envs ?self0 tr = Some (r1, self1, tr1)"
      by (cases "MonitoredCluster_connect_to_primary fuel 0 envs ?self0 tr") auto
    from connect_to_primary_last_attempt[OF c]
    have l1: "last_connect_attempt self1 = time_stamp env" by simp
    obtain r2 self2 tr2 where o: "on_view_change env None self1 tr1 = (r2, self2, tr2)"
      by (cases "on_view_change env None self1 tr1") auto
    from on_view_change_last_attempt[of env None self1 tr1] o l1
    have l2: "last_connect_attempt self2 = time_stamp env" by simp
    from run e c o have "self' = self1 \<or> self' = self2"
      by (cases r1; cases r2; cases "session self1") auto
    with l1 l2 show ?thesis by auto
  qed
  show ?thesis
  proof (intro conjI impI)
    show "k_connect_retry_interval = 10" by (simp add: k_connect_retry_interval_def)
  next
    assume "session self \<noteq> None
      \<or> (last_connect_attempt self \<noteq> 0
           \<and> time_check env - last_connect_attempt self \<le> k_connect_retry_interval)"
    then show "ensure_connected fuel env envs self tr = Some (Inr (session self), self, tr)"
      by (rule skip)
  next
    assume h: "session self = None
        \<and> (last_connect_attempt self = 0
             \<or> time_check env - last_connect_attempt self > k_connect_retry_interval)
        \<and> ensure_connected fuel env envs self tr = Some (r, self', tr')"
    then show "last_connect_attempt self' = time_stamp env" using a by blast
  next
    assume h: "session self = None
        \<and> (last_connect_attempt self = 0
             \<or> time_check env - last_connect_attempt self > k_connect_retry_interval)
        \<and> ensure_connected fuel env envs self tr = Some (r, self', tr')"
      and h2: "session self' = None \<and> time_stamp env \<noteq> 0
              \<and> time_check env2 - time_stamp env \<le> k_connect_retry_interval"
    from h a have "last_connect_attempt self' = time_stamp env" by blast
    with h2 skip[of self' env2 fuel2 envs2 tr']
    show "ensure_connected fuel2 env2 envs2 self' tr' = Some (Inr None, self', tr')"
      by simp
  qed
qed

text \<open>
  A new monitored cluster whose members refuse every connection: the first call tries
  both pods and fails, a second call five seconds later tries nothing.
\<close>

theorem ensure_connected_throttled_witness:
  "ensure_connected 1 sample_menv_down sample_menvs_down
       (MonitoredCluster_init sample_cluster (0::nat)) []
     = Some (Inr None,
             (MonitoredCluster_init sample_cluster 0)\<lparr>last_connect_attempt := 1601546400\<rparr>,
             [GetSession 2 ''mycluster-0:33060'', GetSession 2 ''mycluster-1:33060''])
   \<and> ensure_connected 1 (sample_menv_down\<lparr>time_check := 1601546405\<rparr>) sample_menvs_down
       ((MonitoredCluster_init sample_cluster (0::nat))\<lparr>last_connect_attempt := 1601546400\<rparr>)
       [GetSession 2 ''mycluster-0:33060'', GetSession 2 ''mycluster-1:33060'']
     = Some (Inr None,
             (MonitoredCluster_init sample_cluster 0)\<lparr>last_connect_attempt := 1601546400\<rparr>,
             [GetSession 2 ''mycluster-0:33060'', GetSession 2 ''mycluster-1:33060''])"
proof -
  let ?self = "MonitoredCluster_init sample_cluster (0::nat)"
  let ?self' = "?self\<lparr>last_connect_attempt := 1601546400\<rparr>"
  let ?tr' = "[GetSession 2 ''mycluster-0:33060'', GetSession 2 ''mycluster-1:33060'']"
  have first: "ensure_connected 1 sample_menv_down sample_menvs_down ?self []
      = Some (Inr None, ?self', ?tr')"
    by (simp add: ensure_connected_def MonitoredCluster_init_def find_primary_def
        try_connect_def mext_def sample_menv_down_def sample_menvs_down_def sample_menv_def
        sample_pod0_def sample_pod1_def)
  have g: "session ?self = None
        \<and> (last_connect_attempt ?self = 0
           \<or> time_check sample_menv_down - last_connect_attempt ?self > k_connect_retry_interval)
        \<and> ensure_connected 1 sample_menv_down sample_menvs_down ?self []
            = Some (Inr None, ?self', ?tr')"
    using first by (simp add: MonitoredCluster_init_def)
  have h: "session ?self' = None \<and> time_stamp sample_menv_down \<noteq> 0
        \<and> time_check (sample_menv_down\<lparr>time_check := 1601546405\<rparr>) - time_stamp sample_menv_down
            \<le> k_connect_retry_interval"
    by (simp add: MonitoredCluster_init_def sample_menv_down_def sample_menv_def
          k_connect_retry_interval_def)
  from ensure_connected_throttled
      [of ?self sample_menv_down 1 sample_menvs_down "[]" "Inr None" ?self' ?tr'
          "sample_menv_down\<lparr>time_check := 1601546405\<rparr>" 1 sample_menvs_down] g h
  have "ensure_connected 1 (sample_menv_down\<lparr>time_check := 1601546405\<rparr>) sample_menvs_down
          ?self' ?tr' = Some (Inr None, ?self', ?tr')"
    by blast
  with first show ?thesis by blast
qed

subsection \<open>Registration with the monitor\<close>

text \<open>
  C9.  \<open>monitor_cluster\<close> is idempotent on (namespace, name): with a record of the same
  namespace and name already registered the monitor is unchanged; with none registered
  exactly one fresh record is appended at the end of the list of monitored clusters; and
  a second registration of the same cluster never changes the monitor.
\<close>

theorem monitor_cluster_idempotent:
  "((\<exists>c \<in> set (clusters self). cluster_name (mc_cluster c) = cluster_name cluster
        \<and> cluster_namespace (mc_cluster c) = cluster_namespace cluster)
      \<longrightarrow> monitor_cluster self cluster h = self)
   \<and> ((\<forall>c \<in> set (clusters self). \<not> (cluster_name (mc_cluster c) = cluster_name cluster
        \<and> cluster_namespace (mc_cluster c) = cluster_namespace cluster))
      \<longrightarrow> clusters (monitor_cluster self cluster h)
            = clusters self @ [MonitoredCluster_init cluster h])
   \<and> monitor_cluster (monitor_cluster self cluster h) cluster h'
      = monitor_cluster self cluster h"
  by (auto simp: monitor_cluster_def monitor_cluster_found_iff MonitoredCluster_init_def)

text \<open>
  The sample cluster is registered with an empty monitor, then again, then once more
  in its deleting state: one record, and the monitor stays as it is.
\<close>

theorem monitor_cluster_idempotent_witness:
  "clusters (monitor_cluster \<lparr>clusters = [], stopped = False\<rparr> sample_cluster (0::nat))
     = [MonitoredCluster_init sample_cluster 0]
   \<and> monitor_cluster (monitor_cluster \<lparr>clusters = [], stopped = False\<rparr> sample_cluster (0::nat))
        sample_cluster 1
     = monitor_cluster \<lparr>clusters = [], stopped = False\<rparr> sample_cluster 0
   \<and> monitor_cluster
        \<lparr>clusters = [MonitoredCluster_init sample_cluster (0::nat)], stopped = False\<rparr>
        (sample_cluster\<lparr>cluster_deleting := True\<rparr>) 1
     = \<lparr>clusters = [MonitoredCluster_init sample_cluster 0], stopped = False\<rparr>"
  using monitor_cluster_idempotent
     [of "\<lparr>clusters = [], stopped = False\<rparr>" sample_cluster "0::nat" 1]
    monitor_cluster_idempotent
     [of "\<lparr>clusters = [MonitoredCluster_init sample_cluster (0::nat)], stopped = False\<rparr>"
         "sample_cluster\<lparr>cluster_deleting := True\<rparr>" 1 1]
  by (simp add: MonitoredCluster_init_def)

subsection \<open>A failed creation and the seed's finalizer\<close>

text \<open>
  C10.  When an execution of \<open>create_cluster\<close> calls the \<open>create_cluster\<close> primitive
  of the admin client (which it does after adding the member finalizer of the seed pod)
  and the primitive raises a \<open>mysqlsh.Error\<close>, the execution ends with the seed pod
  carrying no member finalizer and with an error: the error of the primitive, or the
  retry-later error (delay 3) raised when group replication could not be stopped, or an
  error other than \<open>mysqlsh.Error\<close> raised by the \<open>STOP GROUP_REPLICATION\<close> statement.
\<close>

theorem create_cluster_failure_removes_finalizer:
  assumes run: "create_cluster env cluster seed_pod w = (r, w')"
    and called: "DbaCreateCluster ep n opts \<in> set (new_calls w w')"
    and rs: "raises env (DbaCreateCluster ep n opts) = Some (MysqlshError c m)"
  shows "pod_name seed_pod \<notin> member_finalizers w'
       \<and> (\<exists>e. r = Inl e \<and> (e = MysqlshError c m
           \<or> e = TemporaryError
                 ''GR already running while creating cluster but could not stop it'' (Some 3)
           \<or> raises env (RunSql (pod_endpoint seed_pod) ''STOP GROUP_REPLICATION'' []) = Some e))"
proof -
  let ?ep = "pod_endpoint seed_pod"
  let ?P = "\<lambda>c. \<forall>ep n opts. c = DbaCreateCluster ep n opts \<longrightarrow>
      c = DbaCreateCluster ?ep (cluster_name cluster) (create_options (initDB cluster = None))"
  have "calls_in ?P (create_cluster env cluster seed_pod)"
    by (rule calls_in_create_cluster) auto
  from new_calls_of[OF this run called]
  have c: "DbaCreateCluster ep n opts
      = DbaCreateCluster ?ep (cluster_name cluster) (create_options (initDB cluster = None))"
    by simp
  obtain r1 w1 where ds: "create_cluster_data_source cluster w = (r1, w1)" by force
  then have t1: "trace w1 = trace w" and f1: "r1 = Inr b \<Longrightarrow> b = (initDB cluster = None)" for b
    by (auto simp: create_cluster_data_source_def prog_defs update_cluster_info_def
        split: option.splits)
  show ?thesis
  proof (cases r1)
    case (Inl e)
    with run ds have "w' = w1" by (simp add: create_cluster_def bind_prog_def)
    with t1 called show ?thesis by (simp add: new_calls_def)
  next
    case (Inr b)
    with f1 have b: "b = (initDB cluster = None)" by simp
    from run ds Inr
    have wc: "with_connect_dba env ?ep (create_cluster_body env cluster seed_pod b) w1 = (r, w')"
      by (simp add: create_cluster_def bind_prog_def)
    show ?thesis
    proof (cases "raises env (ConnectDba ?ep None)")
      case (Some e)
      with wc have "trace w' = trace w1 @ [ConnectDba ?ep None]"
        by (auto simp: with_connect_dba_def then_prog_apply ext_def)
      with t1 called show ?thesis by (simp add: new_calls_def)
    next
      case None
      let ?w2 = "w1\<lparr>trace := trace w1 @ [ConnectDba ?ep None]\<rparr>"
      obtain r3 w3 where body: "create_cluster_body env cluster seed_pod b ?w2 = (r3, w3)"
        by force
      with None wc have r: "r = r3" and w': "w' = w3\<lparr>trace := trace w3 @ [CloseDba ?ep]\<rparr>"
        by (auto simp: with_connect_dba_def then_prog_apply ext_def)
      have "calls_in (\<lambda>c. True) (create_cluster_body env cluster seed_pod b)"
        by (rule calls_in_create_cluster_body) simp_all
      from calls_in_trace[OF this body] obtain evs where evs: "trace w3 = trace ?w2 @ evs"
        by blast
      with called t1 w' have "DbaCreateCluster ep n opts \<in> set evs"
        by (auto simp: new_calls_def)
      with evs have "DbaCreateCluster ep n opts \<in> set (new_calls ?w2 w3)"
        by (simp add: new_calls_def)
      from create_cluster_body_fails[OF _ body this, of c m] rs c b r w'
      show ?thesis by simp
    qed
  qed
qed

text \<open>
  Pod 0 is not yet in a cluster and the primitive answers "already in a group": the
  statement that stops group replication succeeds, the error of the primitive goes on,
  and pod 0 carries no member finalizer.
\<close>

theorem create_cluster_failure_removes_finalizer_witness:
  "DbaCreateCluster ''mycluster-0:3306'' ''mycluster'' (create_options True)
     \<in> set (new_calls sample_world
              (snd (create_cluster sample_env_create_fails sample_cluster sample_pod0
                      sample_world)))
   \<and> raises sample_env_create_fails
        (DbaCreateCluster ''mycluster-0:3306'' ''mycluster'' (create_options True))
       = Some (MysqlshError 51308 ''already in a group'')
   \<and> pod_name sample_pod0
       \<notin> member_finalizers
           (snd (create_cluster sample_env_create_fails sample_cluster sample_pod0 sample_world))
   \<and> fst (create_cluster sample_env_create_fails sample_cluster sample_pod0 sample_world)
       = Inl (MysqlshError 51308 ''already in a group'')"
proof -
  let ?run = "create_cluster sample_env_create_fails sample_cluster sample_pod0 sample_world"
  have t: "new_calls sample_world (snd ?run)
    = [ConnectDba ''mycluster-0:3306'' None,
       DbaGetCluster ''mycluster-0:3306'',
       RunSql ''mycluster-0:3306'' ''select @@server_id, @@server_uuid, @@report_host'' [],
       RunSql ''mycluster-0:3306'' ''select @@globals.gtid_executed, @@globals.gtid_purged'' [],
       DbaCreateCluster ''mycluster-0:3306'' ''mycluster'' (create_options True),
       RunSql ''mycluster-0:3306'' ''STOP GROUP_REPLICATION'' [],
       CloseDba ''mycluster-0:3306'']"
    and r: "fst ?run = Inl (MysqlshError 51308 ''already in a group'')"
    by (simp_all add: create_cluster_def create_cluster_data_source_def
      with_connect_dba_def create_cluster_body_def log_mysql_info_def
      create_cluster_primitive_def add_member_finalizer_def remove_member_finalizer_def
      update_cluster_info_def create_options_eq new_calls_def sample_defs prog_defs)
  from t have m: "DbaCreateCluster ''mycluster-0:3306'' ''mycluster'' (create_options True)
     \<in> set (new_calls sample_world (snd ?run))"
    by simp
  have rs: "raises sample_env_create_fails
        (DbaCreateCluster ''mycluster-0:3306'' ''mycluster'' (create_options True))
       = Some (MysqlshError 51308 ''already in a group'')"
    by (simp add: sample_env_create_fails_def)
  from create_cluster_failure_removes_finalizer[OF prod.collapse[symmetric] m rs] m rs r
  show ?thesis
    by simp
qed

end
